theory Spec2Isabelle
  imports Main
begin

section \<open>Python values used by main.py\<close>

text \<open>
  A Python \<open>str\<close> is modelled as a \<open>string\<close>: one \<open>char\<close> per code point, restricted to
  the code points U+0000 .. U+00FF. The character classes below are Python's on that range.
  The user-facing messages of main.py are Chinese literals; they are kept as named constants
  whose text writes each code point beyond ASCII as \<open><U+XXXX>\<close>. Only their being non-empty
  matters below.
\<close>

definition dquote :: char where
  "dquote = CHR 0x22"

definition squote :: char where
  "squote = CHR 0x27"

definition newline :: char where
  "newline = CHR 0x0A"

text \<open>\<open>str.isspace\<close> on U+0000 .. U+00FF: TAB, LF, VT, FF, CR, FS, GS, RS, US, SPACE, NEL, NBSP.\<close>

definition isspace :: "char \<Rightarrow> bool" where
  "isspace c = (c \<in> set [CHR 0x09, CHR 0x0A, CHR 0x0B, CHR 0x0C, CHR 0x0D,
                          CHR 0x1C, CHR 0x1D, CHR 0x1E, CHR 0x1F, CHR 0x20, CHR 0x85, CHR 0xA0])"

text \<open>\<open>str.strip()\<close> with no argument.\<close>

definition strip :: "string \<Rightarrow> string" where
  "strip s = rev (dropWhile isspace (rev (dropWhile isspace s)))"

text \<open>\<open>str.lower()\<close> on U+0000 .. U+00FF: A-Z and the Latin-1 capitals U+00C0 .. U+00DE
  (U+00D7, the multiplication sign, excepted) are replaced by their small letters, 32 code
  points further on.\<close>

definition upper_chars :: string where
  "upper_chars = ''ABCDEFGHIJKLMNOPQRSTUVWXYZ'' @
     [CHR 0xC0, CHR 0xC1, CHR 0xC2, CHR 0xC3, CHR 0xC4, CHR 0xC5, CHR 0xC6, CHR 0xC7, CHR 0xC8, CHR 0xC9,
      CHR 0xCA, CHR 0xCB, CHR 0xCC, CHR 0xCD, CHR 0xCE, CHR 0xCF, CHR 0xD0, CHR 0xD1, CHR 0xD2, CHR 0xD3,
      CHR 0xD4, CHR 0xD5, CHR 0xD6, CHR 0xD8, CHR 0xD9, CHR 0xDA, CHR 0xDB, CHR 0xDC, CHR 0xDD, CHR 0xDE]"

definition lower_chars :: string where
  "lower_chars = ''abcdefghijklmnopqrstuvwxyz'' @
     [CHR 0xE0, CHR 0xE1, CHR 0xE2, CHR 0xE3, CHR 0xE4, CHR 0xE5, CHR 0xE6, CHR 0xE7, CHR 0xE8, CHR 0xE9,
      CHR 0xEA, CHR 0xEB, CHR 0xEC, CHR 0xED, CHR 0xEE, CHR 0xEF, CHR 0xF0, CHR 0xF1, CHR 0xF2, CHR 0xF3,
      CHR 0xF4, CHR 0xF5, CHR 0xF6, CHR 0xF8, CHR 0xF9, CHR 0xFA, CHR 0xFB, CHR 0xFC, CHR 0xFD, CHR 0xFE]"

definition lower_char :: "char \<Rightarrow> char" where
  "lower_char c = (case map_of (zip upper_chars lower_chars) c of Some l \<Rightarrow> l | None \<Rightarrow> c)"

definition lower :: "string \<Rightarrow> string" where
  "lower s = map lower_char s"

text \<open>\<open>s.endswith(suf)\<close>.\<close>

definition endswith :: "string \<Rightarrow> string \<Rightarrow> bool" where
  "endswith s suf = (length suf \<le> length s \<and> drop (length s - length suf) s = suf)"

text \<open>\<open>sep.join(xs)\<close>.\<close>

fun join :: "string \<Rightarrow> string list \<Rightarrow> string" where
  "join sep [] = []"
| "join sep [x] = x"
| "join sep (x # y # ys) = x @ sep @ join sep (y # ys)"

subsection \<open>Exceptions\<close>

text \<open>
  An exception is its class, as far as the \<open>except\<close> clauses of main.py tell classes apart,
  and its \<open>str(e)\<close>. \<open>JSONDecodeError\<close> and \<open>UnicodeDecodeError\<close> are \<open>ValueError\<close>s,
  \<open>FileNotFoundError\<close> and \<open>PermissionError\<close> are \<open>OSError\<close>s. All classes below derive
  from \<open>Exception\<close>.
\<close>

datatype exn_class = AttributeError | TypeError | ValueError | OverflowError | OSError | OtherException

datatype exn = Exn (exn_cls: exn_class) (exn_str: string)

subsection \<open>Dynamically typed values\<close>

text \<open>What \<open>json.load\<close> can return, and what a configuration dict can hold.\<close>

datatype pyfloat = Finite int int | PosInf | NegInf | NaN

datatype pyval =
    PNone
  | PBool bool
  | PInt int
  | PFloat pyfloat
  | PStr string
  | PList "pyval list"
  | PDict "(string \<times> pyval) list"

text \<open>Truth value of an object (\<open>if x:\<close>).\<close>

fun truthy :: "pyval \<Rightarrow> bool" where
  "truthy PNone = False"
| "truthy (PBool b) = b"
| "truthy (PInt n) = (n \<noteq> 0)"
| "truthy (PFloat (Finite m e)) = (m \<noteq> 0)"
| "truthy (PFloat _) = True"
| "truthy (PStr s) = (s \<noteq> [])"
| "truthy (PList xs) = (xs \<noteq> [])"
| "truthy (PDict kvs) = (kvs \<noteq> [])"

text \<open>\<open>isinstance(v, list)\<close>, and the elements of a list.\<close>

fun is_list :: "pyval \<Rightarrow> bool" where
  "is_list (PList _) = True"
| "is_list _ = False"

fun list_items :: "pyval \<Rightarrow> pyval list" where
  "list_items (PList xs) = xs"
| "list_items _ = []"

text \<open>\<open>type(x).__name__\<close>, as it appears in an \<open>AttributeError\<close> message.\<close>

fun type_name :: "pyval \<Rightarrow> string" where
  "type_name PNone = ''NoneType''"
| "type_name (PBool _) = ''bool''"
| "type_name (PInt _) = ''int''"
| "type_name (PFloat _) = ''float''"
| "type_name (PStr _) = ''str''"
| "type_name (PList _) = ''list''"
| "type_name (PDict _) = ''dict''"

definition no_attribute :: "pyval \<Rightarrow> string \<Rightarrow> exn" where
  "no_attribute v attr =
     Exn AttributeError ([squote] @ type_name v @ [squote] @ '' object has no attribute ''
                          @ [squote] @ attr @ [squote])"

section \<open>PathValidator\<close>

subsection \<open>clean_path (main.py, lines 51-53)\<close>

definition is_quote :: "char \<Rightarrow> bool" where
  "is_quote c = (c = squote \<or> c = dquote)"

text \<open>
  The second alternative of the pattern, a quote followed by \<open>$\<close>: without \<open>re.MULTILINE\<close>,
  \<open>$\<close> matches at the end of the string and just before a newline that ends the string.
\<close>

definition drop_trailing_quote :: "string \<Rightarrow> string" where
  "drop_trailing_quote t =
     (if t \<noteq> [] \<and> is_quote (last t) then butlast t
      else if 2 \<le> length t \<and> last t = newline \<and> is_quote (last (butlast t))
           then butlast (butlast t) @ [newline]
      else t)"

text \<open>
  \<open>re.sub(r'^[\'"]|[\'"]$', '', t)\<close>: every non-overlapping match, from the left, is removed.
  The first alternative can only match at position 0 and consumes that character; the second
  is then looked for in what follows.
\<close>

definition re_sub_quotes :: "string \<Rightarrow> string" where
  "re_sub_quotes t =
     (case t of
        [] \<Rightarrow> []
      | c # cs \<Rightarrow> if is_quote c then drop_trailing_quote cs else drop_trailing_quote (c # cs))"

text \<open>\<open>clean_path\<close> on a \<open>str\<close>, the type its signature announces.\<close>

definition clean_path :: "string \<Rightarrow> string" where
  "clean_path path_str = (if path_str \<noteq> [] then re_sub_quotes (strip path_str) else [])"

text \<open>
  \<open>clean_path\<close> on any object, as \<open>load_config\<close> calls it with values read from a JSON file:
  a falsy object gives the empty string, a truthy object that is not a \<open>str\<close> has no
  \<open>strip\<close> and raises \<open>AttributeError\<close>.
\<close>

definition clean_path_any :: "pyval \<Rightarrow> exn + string" where
  "clean_path_any v =
     (if truthy v
      then (case v of PStr s \<Rightarrow> Inr (re_sub_quotes (strip s)) | _ \<Rightarrow> Inl (no_attribute v ''strip''))
      else Inr [])"

subsection \<open>int(str) and str(int)\<close>

text \<open>
  \<open>int(s)\<close> for a \<open>str\<close> in base 10, as CPython parses it: whitespace is skipped at both
  ends, then an optional sign, then decimal digits in which single underscores may separate
  digits. The whitespace skipped is TAB, LF, VT, FF, CR, SPACE and, beyond ASCII, the Unicode
  spaces (here NEL and NBSP). More than \<open>max_str_digits\<close> digits are refused (the default of
  \<open>sys.set_int_max_str_digits\<close>). Every failure is a \<open>ValueError\<close>.
\<close>

definition int_space :: "char \<Rightarrow> bool" where
  "int_space c = (c \<in> set [CHR 0x09, CHR 0x0A, CHR 0x0B, CHR 0x0C, CHR 0x0D, CHR 0x20,
                            CHR 0x85, CHR 0xA0])"

definition is_digit :: "char \<Rightarrow> bool" where
  "is_digit c = (c \<in> set ''0123456789'')"

definition digit_val :: "char \<Rightarrow> nat" where
  "digit_val c = of_char c - 48"

definition underscore :: char where
  "underscore = CHR ''_''"

fun no_double_underscore :: "string \<Rightarrow> bool" where
  "no_double_underscore (a # b # cs) = (\<not> (a = underscore \<and> b = underscore) \<and> no_double_underscore (b # cs))"
| "no_double_underscore _ = True"

definition valid_int_body :: "string \<Rightarrow> bool" where
  "valid_int_body b =
     (b \<noteq> [] \<and> hd b \<noteq> underscore \<and> last b \<noteq> underscore
      \<and> list_all (\<lambda>c. is_digit c \<or> c = underscore) b \<and> no_double_underscore b)"

definition digits_value :: "string \<Rightarrow> nat" where
  "digits_value ds = foldl (\<lambda>acc c. acc * 10 + digit_val c) 0 ds"

definition max_str_digits :: nat where
  "max_str_digits = 4300"

definition invalid_literal :: "string \<Rightarrow> exn" where
  "invalid_literal s = Exn ValueError (''invalid literal for int() with base 10: '' @ s)"

definition py_int :: "string \<Rightarrow> exn + int" where
  "py_int s =
     (let t = rev (dropWhile int_space (rev (dropWhile int_space s)));
          neg = (t \<noteq> [] \<and> hd t = CHR ''-'');
          body = (if t \<noteq> [] \<and> (hd t = CHR ''+'' \<or> hd t = CHR ''-'') then tl t else t);
          ds = filter is_digit body
      in if \<not> valid_int_body body then Inl (invalid_literal s)
         else if max_str_digits < length ds
         then Inl (Exn ValueError ''Exceeds the limit (4300 digits) for integer string conversion'')
         else Inr (if neg then - int (digits_value ds) else int (digits_value ds)))"

text \<open>\<open>str(n)\<close> for an \<open>int\<close>.\<close>

definition digit_char :: "nat \<Rightarrow> char" where
  "digit_char d = ''0123456789'' ! d"

fun digits_of :: "nat \<Rightarrow> string" where
  "digits_of n = (if n < 10 then [digit_char n] else digits_of (n div 10) @ [digit_char (n mod 10)])"

declare digits_of.simps [simp del]

definition py_str :: "int \<Rightarrow> string" where
  "py_str i = (if i < 0 then CHR ''-'' # digits_of (nat (- i)) else digits_of (nat i))"

subsection \<open>validate_port (main.py, lines 68-76)\<close>

text \<open>
  Only \<open>ValueError\<close> is caught; any other exception of \<open>int\<close> would leave the function,
  which is the \<open>Inl\<close> of the result.
\<close>

definition validate_port :: "string \<Rightarrow> exn + (bool \<times> int option)" where
  "validate_port port_str =
     (case py_int port_str of
        Inl e \<Rightarrow> (if exn_cls e = ValueError then Inr (False, None) else Inl e)
      | Inr port \<Rightarrow> if 1024 \<le> port \<and> port \<le> 65535 then Inr (True, Some port) else Inr (False, None))"

section \<open>The operating system and the libraries\<close>

text \<open>
  Everything main.py asks of its environment is a field of the record \<open>os\<close>; \<open>'w\<close> is the
  state of the world (file system, processes, sockets). A call that changes the world returns
  the new one, with the exception it raised if it raised one. Nothing is assumed about the
  fields: every theorem holds for any environment.
\<close>

text \<open>
  What a call of gradio's \<open>launch\<close> can do: return, raise, or start the server and keep the
  calling thread until the process ends. Called from a script without
  \<open>prevent_thread_lock=True\<close>, as on lines 408 and 422, \<open>launch\<close> blocks once the server runs;
  line 406 has set \<open>SIGINT\<close> to its default action, so an interrupt ends the process there
  and the call does not return.
\<close>

datatype launch_outcome = LaunchReturns | LaunchRaises exn | LaunchBlocks

datatype proc_outcome =
    Completed string string
  | NonZeroExit string
  | SpawnFailed exn

record datetime =
  dt_year :: nat
  dt_month :: nat
  dt_day :: nat
  dt_hour :: nat
  dt_minute :: nat
  dt_second :: nat

record 'w os =
  getcwd :: string
  path_exists :: "'w \<Rightarrow> string \<Rightarrow> bool"
  path_isfile :: "'w \<Rightarrow> string \<Rightarrow> bool"
  path_is_dir :: "'w \<Rightarrow> string \<Rightarrow> exn + bool"
  path_resolve :: "'w \<Rightarrow> string \<Rightarrow> exn + string"
  makedirs :: "'w \<Rightarrow> string \<Rightarrow> exn option \<times> 'w"
  read_text :: "'w \<Rightarrow> string \<Rightarrow> exn + string"
  write_text :: "'w \<Rightarrow> string \<Rightarrow> string \<Rightarrow> exn option \<times> 'w"
  json_load :: "'w \<Rightarrow> string \<Rightarrow> exn + pyval"
  json_dump :: "'w \<Rightarrow> string \<Rightarrow> pyval \<Rightarrow> nat \<Rightarrow> bool \<Rightarrow> exn option \<times> 'w"
  subprocess_run :: "'w \<Rightarrow> string list \<Rightarrow> proc_outcome \<times> 'w"
  format_exc :: "exn \<Rightarrow> string"
  datetime_now :: "'w \<Rightarrow> datetime"
  socket_bind :: "'w \<Rightarrow> int \<Rightarrow> exn option"
  demo_launch :: "'w \<Rightarrow> int \<Rightarrow> launch_outcome \<times> 'w"
  demo_launch_share :: "'w \<Rightarrow> launch_outcome \<times> 'w"

text \<open>
  \<^item> \<open>getcwd\<close>: \<open>os.getcwd()\<close> when the module is imported.
  \<^item> \<open>path_exists\<close>, \<open>path_isfile\<close>: \<open>os.path.exists\<close>, \<open>os.path.isfile\<close>; they never raise.
  \<^item> \<open>path_is_dir\<close>, \<open>path_resolve\<close>: \<open>Path(p).is_dir()\<close> and \<open>str(Path(p).resolve())\<close>.
  \<^item> \<open>makedirs\<close>: \<open>os.makedirs(p, exist_ok=True)\<close>.
  \<^item> \<open>read_text\<close>, \<open>write_text\<close>: \<open>open(p, 'r' / 'w', encoding='utf-8')\<close> with \<open>f.read()\<close> or
    \<open>f.write(s)\<close>.
  \<^item> \<open>json_load\<close>: \<open>open(p, 'r', encoding='utf-8')\<close> and \<open>json.load(f)\<close>; the exception is the one of
    opening, decoding or parsing.
  \<^item> \<open>json_dump\<close>: \<open>open(p, 'w', encoding='utf-8')\<close> and \<open>json.dump(v, f, indent=i, ensure_ascii=a)\<close>.
  \<^item> \<open>subprocess_run\<close>: \<open>subprocess.run(cmd, capture_output=True, text=True, encoding='utf-8',
    errors='replace', check=True)\<close>: exit status 0 with the two streams, the
    \<open>CalledProcessError\<close> of another exit status with its \<open>stderr\<close>, or any other exception.
  \<^item> \<open>format_exc\<close>: \<open>traceback.format_exc()\<close> while the exception is handled.
  \<^item> \<open>socket_bind\<close>: binding a fresh socket to \<open>('127.0.0.1', port)\<close> and closing it.
  \<^item> \<open>demo_launch\<close>: \<open>demo.launch(server_name='127.0.0.1', server_port=port, show_error=True)\<close>;
    \<open>demo_launch_share\<close>: \<open>demo.launch(share=True)\<close>; each with one of the three outcomes
    above.
  \<open>print\<close> is left out; \<open>logging.error\<close>, \<open>signal.signal\<close> and \<open>webbrowser.open\<close> are recorded as
  events and taken not to raise.
\<close>

datatype event =
    Log string
  | Makedirs string
  | JsonDump string pyval nat bool
  | WriteText string string
  | Spawn "string list"
  | Bind int
  | SignalDefault
  | Launch int
  | LaunchShare
  | OpenBrowser string

text \<open>\<open>os.path.dirname\<close> and \<open>os.path.join\<close> (two arguments) of \<open>posixpath\<close>.\<close>

definition os_path_dirname :: "string \<Rightarrow> string" where
  "os_path_dirname p =
     (let head = rev (dropWhile (\<lambda>c. c \<noteq> CHR ''/'') (rev p))
      in if head \<noteq> [] \<and> \<not> list_all (\<lambda>c. c = CHR ''/'') head
         then rev (dropWhile (\<lambda>c. c = CHR ''/'') (rev head))
         else head)"

definition os_path_join :: "string \<Rightarrow> string \<Rightarrow> string" where
  "os_path_join a b =
     (if b \<noteq> [] \<and> hd b = CHR ''/'' then b
      else if a = [] \<or> last a = CHR ''/'' then a @ b
      else a @ ''/'' @ b)"

subsection \<open>Messages\<close>

definition msg_path_empty :: string where
  "msg_path_empty = ''<U+8DEF><U+5F84><U+4E0D><U+80FD><U+4E3A><U+7A7A>''"

definition msg_not_a_dir :: string where
  "msg_not_a_dir = ''<U+8DEF><U+5F84><U+4E0D><U+662F><U+6709><U+6548><U+76EE><U+5F55>''"

definition msg_validate_failed :: string where
  "msg_validate_failed = ''<U+8DEF><U+5F84><U+9A8C><U+8BC1><U+5931><U+8D25>: ''"

definition msg_read_port_failed :: string where
  "msg_read_port_failed = ''<U+8BFB><U+53D6><U+7AEF><U+53E3><U+6587><U+4EF6><U+51FA><U+9519>: ''"

definition msg_save_port_failed :: string where
  "msg_save_port_failed = ''<U+4FDD><U+5B58><U+7AEF><U+53E3><U+6587><U+4EF6><U+51FA><U+9519>: ''"

definition msg_load_failed :: string where
  "msg_load_failed = ''<U+52A0><U+8F7D><U+914D><U+7F6E><U+6587><U+4EF6><U+51FA><U+9519>: ''"

definition msg_saved_to :: string where
  "msg_saved_to = ''<U+914D><U+7F6E><U+5DF2><U+6210><U+529F><U+4FDD><U+5B58><U+5230>: ''"

definition msg_save_failed :: string where
  "msg_save_failed = ''<U+4FDD><U+5B58><U+914D><U+7F6E><U+6587><U+4EF6><U+51FA><U+9519>: ''"

definition msg_no_valid_inputs :: string where
  "msg_no_valid_inputs = ''<U+9519><U+8BEF><U+FF1A><U+6CA1><U+6709><U+6709><U+6548><U+7684>ASS<U+6587><U+4EF6><U+8DEF><U+5F84>''"

definition msg_run_ok :: string where
  "msg_run_ok = ''<U+6267><U+884C><U+6210><U+529F><U+FF01>''"

definition msg_output_info :: string where
  "msg_output_info = ''<U+8F93><U+51FA><U+4FE1><U+606F><U+FF1A>''"

definition msg_debug_info :: string where
  "msg_debug_info = ''<U+8C03><U+8BD5><U+4FE1><U+606F><U+FF1A>''"

definition msg_run_failed :: string where
  "msg_run_failed = ''<U+6267><U+884C><U+51FA><U+9519><U+FF1A>''"

definition msg_command :: string where
  "msg_command = ''<U+547D><U+4EE4>: ''"

definition msg_error :: string where
  "msg_error = ''<U+9519><U+8BEF>: ''"

definition msg_exception :: string where
  "msg_exception = ''<U+53D1><U+751F><U+5F02><U+5E38><U+FF1A>''"

subsection \<open>validate_dir_path (main.py, lines 55-66)\<close>

text \<open>The part after \<open>clean_path\<close>, which is the part inside \<open>try\<close>.\<close>

definition validate_cleaned :: "'w os \<Rightarrow> 'w \<Rightarrow> string \<Rightarrow> bool \<times> string" where
  "validate_cleaned os w p =
     (if p = [] then (False, msg_path_empty)
      else case path_is_dir os w p of
             Inl e \<Rightarrow> (False, msg_validate_failed @ exn_str e)
           | Inr True \<Rightarrow>
               (case path_resolve os w p of
                  Inl e \<Rightarrow> (False, msg_validate_failed @ exn_str e)
                | Inr r \<Rightarrow> (True, r))
           | Inr False \<Rightarrow> (False, msg_not_a_dir))"

definition validate_dir_path :: "'w os \<Rightarrow> 'w \<Rightarrow> string \<Rightarrow> bool \<times> string" where
  "validate_dir_path os w path_str = validate_cleaned os w (clean_path path_str)"

text \<open>
  \<open>validate_dir_path\<close> on any object: \<open>clean_path\<close> is called before the \<open>try\<close>, so its
  \<open>AttributeError\<close> leaves the function.
\<close>

definition validate_dir_path_any :: "'w os \<Rightarrow> 'w \<Rightarrow> pyval \<Rightarrow> exn + (bool \<times> string)" where
  "validate_dir_path_any os w v =
     (case clean_path_any v of Inl e \<Rightarrow> Inl e | Inr p \<Rightarrow> Inr (validate_cleaned os w p))"

section \<open>PortRegistry\<close>

definition PORT_FILE_PATH :: "'w os \<Rightarrow> string" where
  "PORT_FILE_PATH os = os_path_join (getcwd os) ''WebUI_Port.txt''"

definition DEFAULT_PORT :: int where
  "DEFAULT_PORT = 7888"

text \<open>\<open>get_port_from_file\<close> (lines 78-90).\<close>

definition get_port_from_file :: "'w os \<Rightarrow> 'w \<Rightarrow> int option \<times> event list" where
  "get_port_from_file os w =
     (if path_exists os w (PORT_FILE_PATH os)
      then (case read_text os w (PORT_FILE_PATH os) of
              Inl e \<Rightarrow> (None, [Log (msg_read_port_failed @ exn_str e)])
            | Inr content \<Rightarrow>
                (case validate_port (strip content) of
                   Inl e \<Rightarrow> (None, [Log (msg_read_port_failed @ exn_str e)])
                 | Inr (is_valid, port) \<Rightarrow> if is_valid then (port, []) else (None, [])))
      else (None, []))"

text \<open>\<open>str(port)\<close> for the second component of \<open>validate_port\<close>.\<close>

definition str_of_port :: "int option \<Rightarrow> string" where
  "str_of_port port = (case port of Some p \<Rightarrow> py_str p | None \<Rightarrow> ''None'')"

text \<open>\<open>save_port_to_file\<close> (lines 92-104).\<close>

definition save_port_to_file :: "'w os \<Rightarrow> 'w \<Rightarrow> int \<Rightarrow> bool \<times> event list \<times> 'w" where
  "save_port_to_file os w port0 =
     (case validate_port (py_str port0) of
        Inl e \<Rightarrow> (False, [Log (msg_save_port_failed @ exn_str e)], w)
      | Inr (is_valid, port) \<Rightarrow>
          if \<not> is_valid then (False, [], w)
          else (case write_text os w (PORT_FILE_PATH os) (str_of_port port) of
                  (Some e, w') \<Rightarrow>
                    (False, [WriteText (PORT_FILE_PATH os) (str_of_port port),
                             Log (msg_save_port_failed @ exn_str e)], w')
                | (None, w') \<Rightarrow> (True, [WriteText (PORT_FILE_PATH os) (str_of_port port)], w')))"

section \<open>ConfigStore\<close>

text \<open>
  A configuration document is a \<open>dict\<close> with \<open>str\<close> keys: an association list in insertion
  order whose keys are distinct.
\<close>

type_synonym dict = "(string \<times> pyval) list"

definition dict_keys :: "dict \<Rightarrow> string list" where
  "dict_keys d = map fst d"

definition dict_get :: "dict \<Rightarrow> string \<Rightarrow> pyval option" where
  "dict_get d k = map_of d k"

text \<open>\<open>d[k] = v\<close>: an existing key keeps its place.\<close>

fun dict_set :: "dict \<Rightarrow> string \<Rightarrow> pyval \<Rightarrow> dict" where
  "dict_set [] k v = [(k, v)]"
| "dict_set ((k', v') # d) k v = (if k' = k then (k, v) # d else (k', v') # dict_set d k v)"

definition DEFAULT_CONFIG_PATH :: "'w os \<Rightarrow> string" where
  "DEFAULT_CONFIG_PATH os = os_path_join (getcwd os) ''config.json''"

definition DEFAULT_CONFIG :: dict where
  "DEFAULT_CONFIG =
     [(''input_paths'', PList []),
      (''output_dir'', PStr []),
      (''font_dir'', PStr []),
      (''subset_backend'', PStr ''PyFontTools''),
      (''bin_path'', PStr []),
      (''source_han_ellipsis'', PBool True),
      (''debug'', PBool False),
      (''server_port'', PInt DEFAULT_PORT)]"

text \<open>
  \<open>generate_default_filename\<close> (lines 106-108), with \<open>strftime('%Y%m%d_%H%M%S')\<close> as the C
  library of Linux formats it: the year in decimal without padding, the other fields on two
  digits, padded with zeros.
\<close>

definition zero_pad :: "nat \<Rightarrow> string \<Rightarrow> string" where
  "zero_pad width s = replicate (width - length s) (CHR ''0'') @ s"

definition strftime_Ymd_HMS :: "datetime \<Rightarrow> string" where
  "strftime_Ymd_HMS t =
     digits_of (dt_year t) @ zero_pad 2 (digits_of (dt_month t))
     @ zero_pad 2 (digits_of (dt_day t)) @ ''_'' @ zero_pad 2 (digits_of (dt_hour t))
     @ zero_pad 2 (digits_of (dt_minute t)) @ zero_pad 2 (digits_of (dt_second t))"

definition generate_default_filename :: "'w os \<Rightarrow> 'w \<Rightarrow> string" where
  "generate_default_filename os w = ''assfont_config_'' @ strftime_Ymd_HMS (datetime_now os w) @ ''.json''"

subsection \<open>load_config (main.py, lines 110-138)\<close>

text \<open>\<open>key.endswith(('_dir', '_path', 'output_dir'))\<close>.\<close>

definition is_path_key :: "string \<Rightarrow> bool" where
  "is_path_key key = (endswith key ''_dir'' \<or> endswith key ''_path'' \<or> endswith key ''output_dir'')"

text \<open>
  The list comprehension of line 130: \<open>validate_dir_path(p)[1]\<close> is the condition and, when it
  is truthy, the element kept.
\<close>

fun validate_each :: "'w os \<Rightarrow> 'w \<Rightarrow> pyval list \<Rightarrow> exn + pyval list" where
  "validate_each os w [] = Inr []"
| "validate_each os w (p # ps) =
     (case validate_dir_path_any os w p of
        Inl e \<Rightarrow> Inl e
      | Inr (ok, validated) \<Rightarrow>
          (case validate_each os w ps of
             Inl e \<Rightarrow> Inl e
           | Inr rest \<Rightarrow> Inr (if validated \<noteq> [] then PStr validated # rest else rest)))"

text \<open>
  The body of the loop over \<open>config.items()\<close> (lines 120-132) for one item; \<open>Inl\<close> is an
  exception raised in it.
\<close>

definition load_item :: "'w os \<Rightarrow> 'w \<Rightarrow> string \<Rightarrow> pyval \<Rightarrow> dict \<Rightarrow> exn + dict" where
  "load_item os w key value valid_config =
     (if key \<in> set (dict_keys valid_config)
      then (if is_path_key key
            then (if key = ''output_dir''
                  then Inr (dict_set valid_config key (if value \<noteq> PNone then value else PStr []))
                  else (case validate_dir_path_any os w value of
                          Inl e \<Rightarrow> Inl e
                        | Inr (ok, validated) \<Rightarrow>
                            if validated \<noteq> []
                            then Inr (dict_set valid_config key (PStr validated))
                            else Inr valid_config))
            else (if key = ''input_paths'' \<and> is_list value
                  then (case validate_each os w (list_items value) of
                          Inl e \<Rightarrow> Inl e
                        | Inr kept \<Rightarrow> Inr (dict_set valid_config key (PList kept)))
                  else Inr (dict_set valid_config key value)))
      else Inr valid_config)"

text \<open>The loop (line 119), stopped by the first exception.\<close>

fun load_items :: "'w os \<Rightarrow> 'w \<Rightarrow> dict \<Rightarrow> dict \<Rightarrow> exn + dict" where
  "load_items os w [] valid_config = Inr valid_config"
| "load_items os w ((key, value) # items) valid_config =
     (case load_item os w key value valid_config of
        Inl e \<Rightarrow> Inl e
      | Inr valid_config' \<Rightarrow> load_items os w items valid_config')"

text \<open>The result is the pair returned, then what was logged.\<close>

definition load_config :: "'w os \<Rightarrow> 'w \<Rightarrow> string \<Rightarrow> (dict \<times> string option) \<times> event list" where
  "load_config os w config_path0 =
     (let config_path = (if config_path0 \<noteq> [] then clean_path config_path0 else DEFAULT_CONFIG_PATH os);
          failed = (\<lambda>e. ((DEFAULT_CONFIG, Some (msg_load_failed @ exn_str e)),
                         [Log (msg_load_failed @ exn_str e)]))
      in if path_exists os w config_path
         then (case json_load os w config_path of
                 Inl e \<Rightarrow> failed e
               | Inr (PDict items) \<Rightarrow>
                   (case load_items os w items DEFAULT_CONFIG of
                      Inl e \<Rightarrow> failed e
                    | Inr valid_config \<Rightarrow> ((valid_config, None), []))
               | Inr _ \<Rightarrow> ((DEFAULT_CONFIG, None), []))
         else ((DEFAULT_CONFIG, None), []))"

subsection \<open>save_config (main.py, lines 140-162)\<close>

definition save_config ::
  "'w os \<Rightarrow> 'w \<Rightarrow> string \<Rightarrow> string \<Rightarrow> dict \<Rightarrow> (bool \<times> string) \<times> event list \<times> 'w" where
  "save_config os w save_dir filename0 config =
     (case validate_dir_path os w save_dir of
        (False, err) \<Rightarrow> ((False, err), [], w)
      | (True, validated_dir) \<Rightarrow>
          (let filename = (if strip filename0 = [] then generate_default_filename os w
                           else if \<not> endswith (lower filename0) ''.json'' then filename0 @ ''.json''
                           else filename0);
               save_path = os_path_join validated_dir filename
           in case makedirs os w validated_dir of
                (Some e, w1) \<Rightarrow>
                  ((False, msg_save_failed @ exn_str e),
                   [Makedirs validated_dir, Log (msg_save_failed @ exn_str e)], w1)
              | (None, w1) \<Rightarrow>
                  (case json_dump os w1 save_path (PDict config) 2 False of
                     (Some e, w2) \<Rightarrow>
                       ((False, msg_save_failed @ exn_str e),
                        [Makedirs validated_dir, JsonDump save_path (PDict config) 2 False,
                         Log (msg_save_failed @ exn_str e)], w2)
                   | (None, w2) \<Rightarrow>
                       ((True, msg_saved_to @ save_path),
                        [Makedirs validated_dir, JsonDump save_path (PDict config) 2 False], w2))))"

section \<open>ProcessInvoker: run_assfontsubset (main.py, lines 164-233)\<close>

text \<open>The loop of lines 169-173.\<close>

fun valid_inputs_of :: "'w os \<Rightarrow> 'w \<Rightarrow> string list \<Rightarrow> string list" where
  "valid_inputs_of os w [] = []"
| "valid_inputs_of os w (p0 # ps) =
     (let p = clean_path p0
      in if endswith (lower p) ''.ass'' \<and> path_isfile os w p
         then p # valid_inputs_of os w ps
         else valid_inputs_of os w ps)"

text \<open>Lines 179-183.\<close>

definition final_output_dir_of :: "string list \<Rightarrow> string \<Rightarrow> string" where
  "final_output_dir_of valid_inputs output_dir =
     (if output_dir = [] \<or> strip output_dir = []
      then os_path_join (os_path_dirname (hd valid_inputs)) ''output''
      else output_dir)"

text \<open>Lines 188-211, in the world left by \<open>os.makedirs\<close>.\<close>

definition build_cmd ::
  "'w os \<Rightarrow> 'w \<Rightarrow> string list \<Rightarrow> string \<Rightarrow> string \<Rightarrow> string \<Rightarrow> string \<Rightarrow> bool \<Rightarrow> bool \<Rightarrow> string list" where
  "build_cmd os w valid_inputs final_output_dir font_dir subset_backend bin_path source_han_ellipsis debug =
     [''./AssFontSubset.Console''] @ valid_inputs
     @ (if final_output_dir \<noteq> [] then [''--output'', final_output_dir] else [])
     @ (if font_dir \<noteq> []
        then (case validate_dir_path os w font_dir of
                (True, validated) \<Rightarrow> [''--fonts'', validated]
              | (False, _) \<Rightarrow> [])
        else [])
     @ (if subset_backend \<noteq> ''PyFontTools'' then [''--subset-backend'', subset_backend] else [])
     @ (if bin_path \<noteq> [] \<and> strip bin_path \<noteq> []
        then (case validate_dir_path os w bin_path of
                (True, validated) \<Rightarrow> [''--bin-path'', validated]
              | (False, _) \<Rightarrow> [])
        else [])
     @ (if \<not> source_han_ellipsis then [''--no-source-han-ellipsis''] else [])
     @ (if debug then [''--debug''] else [])"

definition exception_report :: "'w os \<Rightarrow> exn \<Rightarrow> string" where
  "exception_report os e =
     msg_exception @ [newline, newline] @ exn_str e @ [newline, newline] @ format_exc os e"

text \<open>The result is the report returned, the events in the order they happen, and the world.\<close>

definition run_assfontsubset ::
  "'w os \<Rightarrow> 'w \<Rightarrow> string list \<Rightarrow> string \<Rightarrow> string \<Rightarrow> string \<Rightarrow> string \<Rightarrow> bool \<Rightarrow> bool
   \<Rightarrow> string \<times> event list \<times> 'w" where
  "run_assfontsubset os w input_paths output_dir font_dir subset_backend bin_path source_han_ellipsis debug =
     (let valid_inputs = valid_inputs_of os w input_paths
      in if valid_inputs = [] then (msg_no_valid_inputs, [], w)
         else
           (let final_output_dir = final_output_dir_of valid_inputs output_dir
            in case makedirs os w final_output_dir of
                 (Some e, w1) \<Rightarrow>
                   (exception_report os e,
                    [Makedirs final_output_dir, Log (exception_report os e)], w1)
               | (None, w1) \<Rightarrow>
                   (let cmd = build_cmd os w1 valid_inputs final_output_dir font_dir subset_backend
                                bin_path source_han_ellipsis debug
                    in case subprocess_run os w1 cmd of
                         (Completed out err, w2) \<Rightarrow>
                           (msg_run_ok @ [newline, newline] @ msg_output_info @ [newline] @ out
                            @ (if debug \<and> err \<noteq> []
                               then [newline, newline] @ msg_debug_info @ [newline] @ err else []),
                            [Makedirs final_output_dir, Spawn cmd], w2)
                       | (NonZeroExit err, w2) \<Rightarrow>
                           (let error_msg = msg_run_failed @ [newline, newline] @ msg_command
                                             @ join '' '' cmd @ [newline] @ msg_error @ err
                            in (error_msg, [Makedirs final_output_dir, Spawn cmd, Log error_msg], w2))
                       | (SpawnFailed e, w2) \<Rightarrow>
                           (exception_report os e,
                            [Makedirs final_output_dir, Spawn cmd, Log (exception_report os e)], w2))))"

section \<open>ServerLauncher: safe_launch (main.py, lines 393-423)\<close>

text \<open>
  Lines 402-403: \<open>s.bind(('127.0.0.1', port))\<close> on a socket that is closed at once. CPython
  refuses a port outside 0 .. 65535 with an \<open>OverflowError\<close> before asking the system.
\<close>

definition bind_probe :: "'w os \<Rightarrow> 'w \<Rightarrow> int \<Rightarrow> exn option" where
  "bind_probe os w port =
     (if port < 0 \<or> 65535 < port then Some (Exn OverflowError ''bind(): port must be 0-65535.'')
      else socket_bind os w port)"

text \<open>
  How a piece of the program ends: it returns a value, an exception leaves it, or control
  never comes back from a call that blocks.
\<close>

datatype 'a outcome = Returned 'a | Raised exn | NotReturned

text \<open>
  The body of the \<open>try\<close> for one candidate port (lines 400-417): how it ends, the events so
  far and the world. \<open>save_port_to_file\<close> and \<open>webbrowser.open\<close> come after \<open>demo.launch\<close> and
  are reached only when that call returns.
\<close>

definition try_port :: "'w os \<Rightarrow> 'w \<Rightarrow> int \<Rightarrow> int outcome \<times> event list \<times> 'w" where
  "try_port os w port =
     (case bind_probe os w port of
        Some e \<Rightarrow> (Raised e, [Bind port], w)
      | None \<Rightarrow>
          (case demo_launch os w port of
             (LaunchRaises e, w1) \<Rightarrow> (Raised e, [Bind port, SignalDefault, Launch port], w1)
           | (LaunchBlocks, w1) \<Rightarrow> (NotReturned, [Bind port, SignalDefault, Launch port], w1)
           | (LaunchReturns, w1) \<Rightarrow>
               (case save_port_to_file os w1 port of
                  (saved, evs, w2) \<Rightarrow>
                    (Returned port,
                     [Bind port, SignalDefault, Launch port] @ evs
                     @ [OpenBrowser (''http://127.0.0.1:'' @ py_str port)], w2))))"

text \<open>
  The \<open>for\<close> loop over the attempts still to make. \<open>Returned (Some port)\<close> and
  \<open>Returned None\<close> are the values returned; \<open>Raised\<close> is an exception that is not an
  \<open>OSError\<close>, or one raised by the fallback launch, which leaves \<open>safe_launch\<close>. A loop that
  ends without returning returns \<open>None\<close>.
\<close>

fun safe_launch_loop ::
  "'w os \<Rightarrow> 'w \<Rightarrow> int \<Rightarrow> int \<Rightarrow> nat list \<Rightarrow> int option outcome \<times> event list \<times> 'w" where
  "safe_launch_loop os w preferred_port max_attempts [] = (Returned None, [], w)"
| "safe_launch_loop os w preferred_port max_attempts (attempt # attempts) =
     (case try_port os w (preferred_port + int attempt) of
        (Returned port, evs, w1) \<Rightarrow> (Returned (Some port), evs, w1)
      | (NotReturned, evs, w1) \<Rightarrow> (NotReturned, evs, w1)
      | (Raised e, evs, w1) \<Rightarrow>
          if exn_cls e = OSError
          then (if int attempt = max_attempts - 1
                then (case demo_launch_share os w1 of
                        (LaunchRaises e', w2) \<Rightarrow> (Raised e', evs @ [LaunchShare], w2)
                      | (LaunchBlocks, w2) \<Rightarrow> (NotReturned, evs @ [LaunchShare], w2)
                      | (LaunchReturns, w2) \<Rightarrow> (Returned None, evs @ [LaunchShare], w2))
                else (case safe_launch_loop os w1 preferred_port max_attempts attempts of
                        (r, evs', w2) \<Rightarrow> (r, evs @ evs', w2)))
          else (Raised e, evs, w1))"

definition safe_launch :: "'w os \<Rightarrow> 'w \<Rightarrow> int \<Rightarrow> int option outcome \<times> event list \<times> 'w" where
  "safe_launch os w max_attempts =
     (case get_port_from_file os w of
        (from_file, logged) \<Rightarrow>
          (case safe_launch_loop os w (case from_file of Some p \<Rightarrow> p | None \<Rightarrow> DEFAULT_PORT)
                  max_attempts [0 ..< nat max_attempts] of
             (r, evs, w1) \<Rightarrow> (r, logged @ evs, w1)))"

section \<open>A sample environment\<close>

text \<open>
  A small world on which the functions above can be run: directories, files with their
  content, the ports in use and a clock. Paths are absolute and already resolved. A file
  holds a text or the JSON text of a value; \<open>json_error_of\<close> is the message of \<open>json.load\<close> on
  the texts of this world, which either open an object that has no quoted key or do not
  begin a JSON value. \<open>launch\<close> behaves as it does in a script: it takes the port and blocks.
\<close>

definition json_error_of :: "string \<Rightarrow> string" where
  "json_error_of t =
     (if t \<noteq> [] \<and> hd t = CHR ''{''
      then ''Expecting property name enclosed in double quotes: line 1 column 2 (char 1)''
      else ''Expecting value: line 1 column 1 (char 0)'')"

datatype content = Text string | Json pyval

record sample_world =
  sw_dirs :: "string list"
  sw_files :: "(string \<times> content) list"
  sw_bound :: "int list"
  sw_clock :: datetime

definition sample_os :: "sample_world os" where
  "sample_os =
     \<lparr> getcwd = ''/app'',
       path_exists = (\<lambda>w p. p \<in> set (sw_dirs w) \<or> map_of (sw_files w) p \<noteq> None),
       path_isfile = (\<lambda>w p. map_of (sw_files w) p \<noteq> None),
       path_is_dir = (\<lambda>w p. Inr (p \<in> set (sw_dirs w))),
       path_resolve = (\<lambda>w p. Inr p),
       makedirs = (\<lambda>w p. (None, if p \<in> set (sw_dirs w) then w else w\<lparr>sw_dirs := p # sw_dirs w\<rparr>)),
       read_text = (\<lambda>w p. case map_of (sw_files w) p of
                               Some (Text t) \<Rightarrow> Inr t
                             | Some (Json v) \<Rightarrow> Inr ''{}''
                             | None \<Rightarrow> Inl (Exn OSError ''No such file or directory'')),
       write_text = (\<lambda>w p t. (None, w\<lparr>sw_files := (p, Text t) # sw_files w\<rparr>)),
       json_load = (\<lambda>w p. case map_of (sw_files w) p of
                               Some (Json v) \<Rightarrow> Inr v
                             | Some (Text t) \<Rightarrow> Inl (Exn ValueError (json_error_of t))
                             | None \<Rightarrow> Inl (Exn OSError ''No such file or directory'')),
       json_dump = (\<lambda>w p v indent ensure_ascii. (None, w\<lparr>sw_files := (p, Json v) # sw_files w\<rparr>)),
       subprocess_run = (\<lambda>w cmd. (Completed ''done'' [], w)),
       format_exc = (\<lambda>e. ''Traceback (most recent call last)''),
       datetime_now = sw_clock,
       socket_bind = (\<lambda>w port. if port \<in> set (sw_bound w)
                                  then Some (Exn OSError ''[Errno 98] Address already in use'')
                                  else None),
       demo_launch = (\<lambda>w port. (LaunchBlocks, w\<lparr>sw_bound := port # sw_bound w\<rparr>)),
       demo_launch_share = (\<lambda>w. (LaunchBlocks, w)) \<rparr>"

definition sample_clock :: datetime where
  "sample_clock = \<lparr> dt_year = 2025, dt_month = 3, dt_day = 9, dt_hour = 14, dt_minute = 5, dt_second = 7 \<rparr>"

text \<open>
  The directory \<open>/cfg\<close> holds a file that is not JSON, a file whose JSON is a list,
  and three configuration files; \<open>/tmp/x.ass\<close> is a subtitle file; port 7888 is taken.
\<close>

definition sample_w :: sample_world where
  "sample_w =
     \<lparr> sw_dirs = [''/cfg'', ''/tmp'', ''/fonts''],
       sw_files =
         [(''/tmp/x.ass'', Text ''Dialogue: 0,0:00:01.00,0:00:02.00''),
          (''/cfg/broken.json'', Text ''{not json''),
          (''/cfg/list.json'', Json (PList [PInt 1, PInt 2])),
          (''/cfg/out.json'', Json (PDict [(''output_dir'', PStr ''not/a/dir'')])),
          (''/cfg/fonts.json'',
             Json (PDict [(''font_dir'', PStr ''/fonts''), (''theme'', PStr ''dark''),
                          (''input_paths'', PStr ''/tmp/x.ass'')])),
          (''/cfg/missing.json'', Json (PDict [(''font_dir'', PStr ''/nonexistent'')]))],
       sw_bound = [7888],
       sw_clock = sample_clock \<rparr>"

text \<open>The same environment on a medium where nothing can be written or created.\<close>

definition readonly_os :: "sample_world os" where
  "readonly_os =
     sample_os
       \<lparr> makedirs := (\<lambda>w p. (Some (Exn OSError ''[Errno 30] Read-only file system''), w)),
         write_text := (\<lambda>w p t. (Some (Exn OSError ''[Errno 30] Read-only file system''), w)),
         json_dump := (\<lambda>w p v indent ensure_ascii.
                        (Some (Exn OSError ''[Errno 30] Read-only file system''), w)) \<rparr>"

text \<open>The sample environment where only writing a file fails.\<close>

definition full_disk_os :: "sample_world os" where
  "full_disk_os =
     sample_os
       \<lparr> json_dump := (\<lambda>w p v indent ensure_ascii.
                        (Some (Exn OSError ''[Errno 28] No space left on device''), w)) \<rparr>"

text \<open>
  The sample environment with a \<open>launch\<close> that returns at once, as it would with
  \<open>prevent_thread_lock=True\<close>.
\<close>

definition returning_os :: "sample_world os" where
  "returning_os =
     sample_os \<lparr> demo_launch := (\<lambda>w port. (LaunchReturns, w\<lparr>sw_bound := port # sw_bound w\<rparr>)) \<rparr>"

section \<open>Notions used in the statements\<close>

text \<open>
  A core that carries no wrapping of its own: it is empty, or it neither begins nor ends with
  a whitespace character or a quote character.
\<close>

definition plain_core :: "string \<Rightarrow> bool" where
  "plain_core core =
     (core = [] \<or> (\<not> isspace (hd core) \<and> \<not> is_quote (hd core)
                    \<and> \<not> isspace (last core) \<and> \<not> is_quote (last core)))"

text \<open>A core that carries no whitespace of its own at either end.\<close>

definition no_space_ends :: "string \<Rightarrow> bool" where
  "no_space_ends core = (core = [] \<or> (\<not> isspace (hd core) \<and> \<not> isspace (last core)))"

text \<open>
  The output directory and the argument vector, following the words of the specification:
  a blank \<open>output_dir\<close> is replaced by the \<open>output\<close> subdirectory of the directory of the
  first valid input; the flags come in the stated order, each under its stated condition.
\<close>

definition spec_output_dir :: "string \<Rightarrow> string \<Rightarrow> string" where
  "spec_output_dir first_valid output_dir =
     (if strip output_dir = [] then os_path_join (os_path_dirname first_valid) ''output''
      else output_dir)"

definition spec_argv ::
  "'w os \<Rightarrow> 'w \<Rightarrow> string list \<Rightarrow> string \<Rightarrow> string \<Rightarrow> string \<Rightarrow> string \<Rightarrow> bool \<Rightarrow> bool \<Rightarrow> string list" where
  "spec_argv os w valid out font_dir subset_backend bin_path source_han_ellipsis debug =
     [''./AssFontSubset.Console''] @ valid @ [''--output'', out]
     @ (if fst (validate_dir_path os w font_dir)
        then [''--fonts'', snd (validate_dir_path os w font_dir)] else [])
     @ (if subset_backend \<noteq> ''PyFontTools'' then [''--subset-backend'', subset_backend] else [])
     @ (if strip bin_path \<noteq> [] \<and> fst (validate_dir_path os w bin_path)
        then [''--bin-path'', snd (validate_dir_path os w bin_path)] else [])
     @ (if \<not> source_han_ellipsis then [''--no-source-han-ellipsis''] else [])
     @ (if debug then [''--debug''] else [])"

text \<open>The commands spawned by a sequence of events.\<close>

fun spawned_cmds :: "event list \<Rightarrow> string list list" where
  "spawned_cmds [] = []"
| "spawned_cmds (Spawn cmd # evs) = cmd # spawned_cmds evs"
| "spawned_cmds (_ # evs) = spawned_cmds evs"

text \<open>
  The path \<open>load_config\<close> reads (line 112), and the entries of a list that validate as
  directories with the path they resolve to.
\<close>

definition resolved_config_path :: "'w os \<Rightarrow> string \<Rightarrow> string" where
  "resolved_config_path os config_path =
     (if config_path \<noteq> [] then clean_path config_path else DEFAULT_CONFIG_PATH os)"

fun is_dict :: "pyval \<Rightarrow> bool" where
  "is_dict (PDict _) = True"
| "is_dict _ = False"

definition valid_dir_entry :: "'w os \<Rightarrow> 'w \<Rightarrow> pyval \<Rightarrow> bool" where
  "valid_dir_entry os w v =
     (case v of
        PStr s \<Rightarrow> fst (validate_dir_path os w s) \<and> snd (validate_dir_path os w s) \<noteq> []
      | _ \<Rightarrow> False)"

definition resolved_entry :: "'w os \<Rightarrow> 'w \<Rightarrow> pyval \<Rightarrow> pyval" where
  "resolved_entry os w v = (case v of PStr s \<Rightarrow> PStr (snd (validate_dir_path os w s)) | _ \<Rightarrow> v)"

text \<open>
  The file name of \<open>save\<close>, following the words of the specification: synthesized from the
  current time when the name given is blank, else the name given, with \<open>.json\<close> appended when
  it does not end in it.
\<close>

definition spec_filename :: "'w os \<Rightarrow> 'w \<Rightarrow> string \<Rightarrow> string" where
  "spec_filename os w filename =
     (if strip filename = [] then ''assfont_config_'' @ strftime_Ymd_HMS (datetime_now os w) @ ''.json''
      else if endswith (lower filename) ''.json'' then filename
      else filename @ ''.json'')"

section \<open>Properties of clean_path\<close>

lemma strip_all_space:
  assumes "\<forall>c\<in>set ws. isspace c"
  shows "strip ws = []"
proof -
  have h: "dropWhile isspace ws = []"
    using assms by (induction ws) auto
  show ?thesis unfolding strip_def h by simp
qed

lemma dropWhile_hd_id: "xs \<noteq> [] \<Longrightarrow> \<not> P (hd xs) \<Longrightarrow> dropWhile P xs = xs"
  by (cases xs) simp_all

lemma strip_gen_id:
  assumes "xs \<noteq> []" "\<not> P (hd xs)" "\<not> P (last xs)"
  shows "rev (dropWhile P (rev (dropWhile P xs))) = xs"
proof -
  have a: "dropWhile P xs = xs" using assms by (simp add: dropWhile_hd_id)
  have b: "dropWhile P (rev xs) = rev xs"
    using assms by (intro dropWhile_hd_id) (simp_all add: hd_rev)
  show ?thesis unfolding a b by simp
qed

lemma dropWhile_space_prefix:
  "\<forall>c\<in>set ws. isspace c \<Longrightarrow> mid \<noteq> [] \<Longrightarrow> \<not> isspace (hd mid) \<Longrightarrow>
   dropWhile isspace (ws @ mid @ rest) = mid @ rest"
  by (cases mid) (simp_all add: dropWhile_append2)

lemma strip_wrap:
  assumes "\<forall>c\<in>set ws1. isspace c" "\<forall>c\<in>set ws2. isspace c"
    and "mid \<noteq> []" "\<not> isspace (hd mid)" "\<not> isspace (last mid)"
  shows "strip (ws1 @ mid @ ws2) = mid"
proof -
  have a: "dropWhile isspace (ws1 @ mid @ ws2) = mid @ ws2"
    by (rule dropWhile_space_prefix [OF assms(1) assms(3) assms(4)])
  have b: "dropWhile isspace (rev ws2 @ rev mid @ []) = rev mid @ []"
    using assms by (intro dropWhile_space_prefix) (simp_all add: hd_rev)
  show ?thesis
    using a b by (simp add: strip_def)
qed

lemma quote_not_space: "is_quote c \<Longrightarrow> \<not> isspace c"
  by (auto simp: is_quote_def isspace_def squote_def dquote_def)

lemma newline_space: "isspace newline"
  by (simp add: isspace_def newline_def)

lemma drop_trailing_quote_plain:
  "plain_core core \<Longrightarrow> drop_trailing_quote core = core"
  using newline_space by (auto simp: plain_core_def drop_trailing_quote_def)

lemma re_sub_quotes_plain: "plain_core core \<Longrightarrow> re_sub_quotes core = core"
  using drop_trailing_quote_plain [of core]
  by (cases core) (auto simp: re_sub_quotes_def plain_core_def)

lemma strip_plain: "plain_core core \<Longrightarrow> strip core = core"
  using strip_wrap [of "[]" "[]" core] by (cases "core = []") (simp_all add: plain_core_def strip_def)

lemma clean_path_plain: "plain_core core \<Longrightarrow> clean_path core = core"
  by (simp add: clean_path_def strip_plain re_sub_quotes_plain)

lemma clean_path_space_layer:
  assumes "\<forall>c\<in>set ws1. isspace c" "\<forall>c\<in>set ws2. isspace c" "plain_core core"
  shows "clean_path (ws1 @ core @ ws2) = core"
proof (cases "core = []")
  case True
  have "strip (ws1 @ ws2) = []"
    using assms by (intro strip_all_space) auto
  with True show ?thesis
    by (simp add: clean_path_def re_sub_quotes_def)
next
  case False
  then have "strip (ws1 @ core @ ws2) = core"
    using assms by (intro strip_wrap) (auto simp: plain_core_def)
  then show ?thesis using assms False by (simp add: clean_path_def re_sub_quotes_plain)
qed

lemma clean_path_quote_layer:
  assumes "\<forall>c\<in>set ws1. isspace c" "\<forall>c\<in>set ws2. isspace c" "is_quote q"
  shows "clean_path (ws1 @ [q] @ core @ [q] @ ws2) = core"
proof -
  have "strip (ws1 @ ([q] @ core @ [q]) @ ws2) = [q] @ core @ [q]"
    using assms by (intro strip_wrap) (auto simp: quote_not_space)
  then have "strip (ws1 @ [q] @ core @ [q] @ ws2) = q # core @ [q]" by simp
  then show ?thesis using assms
    by (simp add: clean_path_def re_sub_quotes_def drop_trailing_quote_def)
qed

text \<open>
  What \<open>clean_path\<close> does to any string: the whitespace goes, then at most one quote character
  at each end, whether or not the two match.
\<close>

lemma clean_path_unfold: "clean_path s = re_sub_quotes (strip s)"
  by (cases s) (simp_all add: clean_path_def strip_def re_sub_quotes_def)

lemma length_dropWhile_less:
  "xs \<noteq> [] \<Longrightarrow> P (hd xs) \<Longrightarrow> length (dropWhile P xs) < length xs"
  by (cases xs) (simp_all add: length_dropWhile_le le_imp_less_Suc)

lemma length_strip_le: "length (strip s) \<le> length s"
proof -
  have "length (dropWhile isspace (rev (dropWhile isspace s))) \<le> length (rev (dropWhile isspace s))"
    by (rule length_dropWhile_le)
  also have "\<dots> \<le> length s" by (simp add: length_dropWhile_le)
  finally show ?thesis by (simp add: strip_def)
qed

lemma strip_same_length:
  assumes "length (strip s) = length s" "s \<noteq> []"
  shows "\<not> isspace (hd s) \<and> \<not> isspace (last s)"
proof -
  have a: "\<not> isspace (hd s)"
  proof
    assume "isspace (hd s)"
    with assms(2) have "length (dropWhile isspace s) < length s"
      by (rule length_dropWhile_less)
    moreover have "length (strip s) \<le> length (dropWhile isspace s)"
      using length_dropWhile_le [of isspace "rev (dropWhile isspace s)"] by (simp add: strip_def)
    ultimately show False using assms(1) by simp
  qed
  have b: "\<not> isspace (last s)"
  proof
    assume sp: "isspace (last s)"
    from a assms(2) have d: "dropWhile isspace s = s" by (simp add: dropWhile_hd_id)
    from assms(2) sp have "length (dropWhile isspace (rev s)) < length (rev s)"
      by (intro length_dropWhile_less) (simp_all add: hd_rev)
    then show False using assms(1) by (simp add: strip_def d)
  qed
  from a b show ?thesis ..
qed

lemma strip_no_space_ends: "no_space_ends core \<Longrightarrow> strip core = core"
  unfolding strip_def no_space_ends_def
  by (cases "core = []") (simp_all add: strip_gen_id)

lemma length_drop_trailing_quote_le: "length (drop_trailing_quote t) \<le> length t"
  by (auto simp: drop_trailing_quote_def)

lemma drop_trailing_quote_same_length:
  "length (drop_trailing_quote t) = length t \<Longrightarrow> t \<noteq> [] \<Longrightarrow> \<not> is_quote (last t)"
proof
  assume l: "length (drop_trailing_quote t) = length t" and t: "t \<noteq> []" and q: "is_quote (last t)"
  from t q have "drop_trailing_quote t = butlast t" by (simp add: drop_trailing_quote_def)
  with l have "length t - 1 = length t" by simp
  with t show False by (cases t) simp_all
qed

lemma re_sub_quotes_same_length:
  assumes "length (re_sub_quotes t) = length t" "t \<noteq> []"
  shows "\<not> is_quote (hd t) \<and> \<not> is_quote (last t)"
proof -
  from assms(2) obtain c cs where t: "t = c # cs" by (cases t) auto
  have nq: "\<not> is_quote c"
  proof
    assume "is_quote c"
    with t have "re_sub_quotes t = drop_trailing_quote cs" by (simp add: re_sub_quotes_def)
    with length_drop_trailing_quote_le [of cs] assms(1) t show False by simp
  qed
  with t have "re_sub_quotes t = drop_trailing_quote t" by (simp add: re_sub_quotes_def)
  with assms have "\<not> is_quote (last t)" by (simp add: drop_trailing_quote_same_length)
  with nq t show ?thesis by simp
qed

lemma length_re_sub_quotes_le: "length (re_sub_quotes t) \<le> length t"
proof (cases t)
  case Nil
  then show ?thesis by (simp add: re_sub_quotes_def)
next
  case (Cons c cs)
  with length_drop_trailing_quote_le [of cs] length_drop_trailing_quote_le [of "c # cs"]
  show ?thesis by (auto simp: re_sub_quotes_def)
qed

lemma re_sub_quotes_fixed: "no_space_ends core \<Longrightarrow> re_sub_quotes core = core \<Longrightarrow> plain_core core"
  using re_sub_quotes_same_length [of core]
  by (cases "core = []") (auto simp: plain_core_def no_space_ends_def)

text \<open>The fixed points of \<open>clean_path\<close> are exactly the plain cores.\<close>

lemma clean_path_fixed_iff: "clean_path core = core \<longleftrightarrow> plain_core core"
proof
  assume fx: "clean_path core = core"
  show "plain_core core"
  proof (cases "core = []")
    case True
    then show ?thesis by (simp add: plain_core_def)
  next
    case False
    from fx have "length (re_sub_quotes (strip core)) = length core"
      by (simp add: clean_path_unfold)
    with length_re_sub_quotes_le [of "strip core"] length_strip_le [of core]
    have l1: "length (strip core) = length core"
      and l2: "length (re_sub_quotes (strip core)) = length (strip core)"
      by simp_all
    from strip_same_length [OF l1 False] False have ns: "no_space_ends core"
      by (simp add: no_space_ends_def)
    then have "strip core = core" by (rule strip_no_space_ends)
    with fx have "re_sub_quotes core = core" by (simp add: clean_path_unfold)
    with ns show ?thesis by (rule re_sub_quotes_fixed)
  qed
next
  assume "plain_core core"
  then show "clean_path core = core" by (rule clean_path_plain)
qed

lemma clean_path_space_layer_any:
  assumes "\<forall>c\<in>set ws1. isspace c" "\<forall>c\<in>set ws2. isspace c" "no_space_ends core"
  shows "clean_path (ws1 @ core @ ws2) = re_sub_quotes core"
proof (cases "core = []")
  case True
  have "strip (ws1 @ ws2) = []"
    using assms by (intro strip_all_space) auto
  with True show ?thesis by (simp add: clean_path_unfold re_sub_quotes_def)
next
  case False
  then have "strip (ws1 @ core @ ws2) = core"
    using assms by (intro strip_wrap) (auto simp: no_space_ends_def)
  then show ?thesis by (simp add: clean_path_unfold)
qed

text \<open>
  C7, as stated: for every string wrapped in a single matching pair of quote characters and/or
  surrounding whitespace, \<open>clean_path\<close> strips exactly that one layer and nothing else, and
  is idempotent on such strings. The string \<open>"'90s.ass"\<close> is a core wrapped in one pair of
  double quotes; \<open>clean_path\<close> strips that pair, and a second application strips the
  apostrophe the core begins with, so \<open>clean_path\<close> is not idempotent there. The string
  \<open> 'abc \<close> is a core wrapped in whitespace only; \<open>clean_path\<close> strips the whitespace and the
  apostrophe as well.
\<close>

theorem clean_path_counterexample:
  "clean_path ([dquote] @ (squote # ''90s.ass'') @ [dquote]) = squote # ''90s.ass''
   \<and> clean_path (clean_path ([dquote] @ (squote # ''90s.ass'') @ [dquote]))
       \<noteq> clean_path ([dquote] @ (squote # ''90s.ass'') @ [dquote])
   \<and> clean_path ('' '' @ (squote # ''abc'') @ '' '') \<noteq> squote # ''abc''"
  by (simp add: clean_path_def strip_def isspace_def re_sub_quotes_def drop_trailing_quote_def
      is_quote_def dquote_def squote_def newline_def)

text \<open>
  C7, amended: for every string made of a core, whatever it is, in one matching pair of quote
  characters and any surrounding whitespace, \<open>clean_path\<close> returns exactly the core: that
  layer and nothing else; applying it again changes nothing exactly when the core is plain,
  that is empty or without a quote or whitespace character at either end. For a core without
  whitespace at its ends and wrapped in whitespace only, \<open>clean_path\<close> returns exactly the
  core exactly when the core is plain, and is idempotent there when it is.
\<close>

theorem clean_path_one_layer:
  assumes "\<forall>c\<in>set ws1. isspace c" and "\<forall>c\<in>set ws2. isspace c" and "is_quote q"
  shows "clean_path (ws1 @ [q] @ core @ [q] @ ws2) = core
     \<and> (clean_path (clean_path (ws1 @ [q] @ core @ [q] @ ws2)) = clean_path (ws1 @ [q] @ core @ [q] @ ws2)
        \<longleftrightarrow> plain_core core)
     \<and> (no_space_ends core \<longrightarrow> (clean_path (ws1 @ core @ ws2) = core \<longleftrightarrow> plain_core core))
     \<and> (plain_core core \<longrightarrow>
          clean_path (clean_path (ws1 @ core @ ws2)) = clean_path (ws1 @ core @ ws2))"
proof -
  have a: "clean_path (ws1 @ [q] @ core @ [q] @ ws2) = core"
    by (rule clean_path_quote_layer [OF assms])
  have b: "clean_path (clean_path (ws1 @ [q] @ core @ [q] @ ws2)) = clean_path (ws1 @ [q] @ core @ [q] @ ws2)
        \<longleftrightarrow> plain_core core"
    unfolding a by (rule clean_path_fixed_iff)
  have c: "no_space_ends core \<longrightarrow> (clean_path (ws1 @ core @ ws2) = core \<longleftrightarrow> plain_core core)"
  proof
    assume ns: "no_space_ends core"
    have "clean_path (ws1 @ core @ ws2) = re_sub_quotes core"
      by (rule clean_path_space_layer_any [OF assms(1,2) ns])
    then show "clean_path (ws1 @ core @ ws2) = core \<longleftrightarrow> plain_core core"
      using re_sub_quotes_fixed [OF ns] re_sub_quotes_plain [of core] by auto
  qed
  have d: "plain_core core \<longrightarrow>
      clean_path (clean_path (ws1 @ core @ ws2)) = clean_path (ws1 @ core @ ws2)"
    using clean_path_space_layer [OF assms(1,2)] clean_path_plain by simp
  from a b c d show ?thesis by blast
qed

theorem clean_path_one_layer_witness:
  "clean_path ('' '' @ [dquote] @ (squote # ''90s.ass'') @ [dquote] @ ''  '') = squote # ''90s.ass''
   \<and> clean_path ('' '' @ [dquote] @ ''/tmp/a b.ass'' @ [dquote] @ ''  '') = ''/tmp/a b.ass''
   \<and> clean_path (clean_path ('' '' @ [dquote] @ ''/tmp/a b.ass'' @ [dquote] @ ''  ''))
       = clean_path ('' '' @ [dquote] @ ''/tmp/a b.ass'' @ [dquote] @ ''  '')
   \<and> clean_path ('' '' @ ''/tmp/a b.ass'' @ ''  '') = ''/tmp/a b.ass''
   \<and> clean_path (clean_path ('' '' @ ''/tmp/a b.ass'' @ ''  ''))
       = clean_path ('' '' @ ''/tmp/a b.ass'' @ ''  '')"
proof -
  have a: "\<forall>c\<in>set '' ''. isspace c" and b: "\<forall>c\<in>set ''  ''. isspace c"
    by (simp_all add: isspace_def)
  have q: "is_quote dquote" by (simp add: is_quote_def)
  have p: "plain_core ''/tmp/a b.ass''"
    by (simp add: plain_core_def isspace_def is_quote_def squote_def dquote_def)
  have n: "no_space_ends ''/tmp/a b.ass''"
    by (simp add: no_space_ends_def isspace_def)
  from clean_path_one_layer [OF a b q, of "squote # ''90s.ass''"]
  have 1: "clean_path ('' '' @ [dquote] @ (squote # ''90s.ass'') @ [dquote] @ ''  '') = squote # ''90s.ass''"
    by blast
  from clean_path_one_layer [OF a b q, of "''/tmp/a b.ass''"] p n
  show ?thesis using 1 by blast
qed

section \<open>Properties of validate_port\<close>

lemma digit_char_is_digit: "d < 10 \<Longrightarrow> is_digit (digit_char d)"
proof -
  assume "d < 10"
  then have "d \<in> {0,1,2,3,4,5,6,7,8,9}" by auto
  then show ?thesis by (auto simp: digit_char_def is_digit_def)
qed

lemma digit_val_digit_char: "d < 10 \<Longrightarrow> digit_val (digit_char d) = d"
proof -
  assume "d < 10"
  then have "d \<in> {0,1,2,3,4,5,6,7,8,9}" by auto
  then show ?thesis by (auto simp: digit_char_def digit_val_def)
qed

lemma digits_of_all_digits: "list_all is_digit (digits_of n)"
proof (induction n rule: digits_of.induct)
  case (1 n)
  show ?case
  proof (cases "n < 10")
    case True
    then show ?thesis by (subst digits_of.simps) (simp add: digit_char_is_digit)
  next
    case False
    then show ?thesis using 1 by (subst digits_of.simps) (simp add: digit_char_is_digit)
  qed
qed

lemma digits_of_nonempty: "digits_of n \<noteq> []"
  by (subst digits_of.simps) simp

lemma digits_value_snoc: "digits_value (xs @ [c]) = digits_value xs * 10 + digit_val c"
  by (simp add: digits_value_def)

lemma digits_value_digits_of: "digits_value (digits_of n) = n"
proof (induction n rule: digits_of.induct)
  case (1 n)
  show ?case
  proof (cases "n < 10")
    case True
    then show ?thesis
      by (subst digits_of.simps) (simp add: digits_value_def digit_val_digit_char)
  next
    case False
    then have "digits_value (digits_of (n div 10)) = n div 10" using 1 by simp
    with False show ?thesis
      by (subst digits_of.simps) (simp add: digits_value_snoc digit_val_digit_char)
  qed
qed

lemma length_digits_of: "n < 10 ^ Suc k \<Longrightarrow> length (digits_of n) \<le> Suc k"
proof (induction k arbitrary: n)
  case 0
  then show ?case by (subst digits_of.simps) simp
next
  case (Suc k)
  show ?case
  proof (cases "n < 10")
    case True
    then show ?thesis by (subst digits_of.simps) simp
  next
    case False
    from Suc.prems have "n < 10 * 10 ^ Suc k" by simp
    then have "n div 10 < 10 ^ Suc k" by (simp add: less_mult_imp_div_less mult.commute)
    then have "length (digits_of (n div 10)) \<le> Suc k" by (rule Suc.IH)
    with False show ?thesis by (subst digits_of.simps) simp
  qed
qed

lemma is_digit_not_special:
  "is_digit c \<Longrightarrow> \<not> int_space c \<and> c \<noteq> underscore \<and> c \<noteq> CHR ''+'' \<and> c \<noteq> CHR ''-''"
  by (auto simp: is_digit_def int_space_def underscore_def)

lemma no_double_underscore_digits: "list_all is_digit ds \<Longrightarrow> no_double_underscore ds"
  by (induction ds rule: no_double_underscore.induct) (auto dest: is_digit_not_special)

lemma valid_int_body_digits:
  assumes "ds \<noteq> []" "list_all is_digit ds"
  shows "valid_int_body ds"
proof -
  have "is_digit (hd ds)" "is_digit (last ds)"
    using assms by (simp_all add: list_all_iff)
  moreover have "list_all (\<lambda>c. is_digit c \<or> c = underscore) ds"
    using assms(2) by (simp add: list_all_iff)
  ultimately show ?thesis
    using assms by (auto simp: valid_int_body_def no_double_underscore_digits dest: is_digit_not_special)
qed

lemma py_int_digits:
  assumes "ds \<noteq> []" "list_all is_digit ds" "length ds \<le> max_str_digits"
  shows "py_int ds = Inr (int (digits_value ds))"
proof -
  have hd_l: "is_digit (hd ds)" "is_digit (last ds)"
    using assms by (simp_all add: list_all_iff)
  then have t: "rev (dropWhile int_space (rev (dropWhile int_space ds))) = ds"
    using assms(1) by (intro strip_gen_id) (auto dest: is_digit_not_special)
  have f: "filter is_digit ds = ds"
    using assms(2) by (simp add: list_all_iff)
  have sgn: "hd ds \<noteq> CHR ''+''" "hd ds \<noteq> CHR ''-''"
    using hd_l by (auto dest: is_digit_not_special)
  show ?thesis
    unfolding py_int_def t
    using assms sgn f by (simp add: Let_def valid_int_body_digits)
qed

text \<open>\<open>int(str(n)) == n\<close> for the integers that matter here.\<close>

lemma py_int_py_str:
  assumes "0 \<le> n" "n < 100000"
  shows "py_int (py_str n) = Inr n"
proof -
  have "nat n < 10 ^ Suc 4" using assms by simp
  then have "length (digits_of (nat n)) \<le> Suc 4" by (rule length_digits_of)
  then have "length (digits_of (nat n)) \<le> max_str_digits"
    by (simp add: max_str_digits_def)
  then have "py_int (digits_of (nat n)) = Inr (int (digits_value (digits_of (nat n))))"
    by (intro py_int_digits) (simp_all add: digits_of_nonempty digits_of_all_digits)
  then show ?thesis using assms by (simp add: py_str_def digits_value_digits_of)
qed

lemma py_int_raises_ValueError: "py_int s = Inl e \<Longrightarrow> exn_cls e = ValueError"
  by (auto simp: py_int_def Let_def invalid_literal_def split: if_splits)

lemma validate_port_returns: "\<exists>ok p. validate_port s = Inr (ok, p)"
  by (cases "py_int s") (auto simp: validate_port_def dest: py_int_raises_ValueError)

lemma validate_port_of_py_str:
  "1024 \<le> n \<Longrightarrow> n \<le> 65535 \<Longrightarrow> validate_port (py_str n) = Inr (True, Some n)"
  by (simp add: validate_port_def py_int_py_str)

lemma validate_port_accepts:
  "py_int s = Inr n \<Longrightarrow> 1024 \<le> n \<Longrightarrow> n \<le> 65535 \<Longrightarrow> validate_port s = Inr (True, Some n)"
  by (simp add: validate_port_def)

lemma validate_port_rejects:
  "(\<forall>n. py_int s = Inr n \<longrightarrow> n < 1024 \<or> 65535 < n) \<Longrightarrow> validate_port s = Inr (False, None)"
  by (cases "py_int s") (auto simp: validate_port_def dest: py_int_raises_ValueError)

lemma validate_port_range:
  "validate_port s = Inr (True, p) \<Longrightarrow> \<exists>n. p = Some n \<and> py_int s = Inr n \<and> 1024 \<le> n \<and> n \<le> 65535"
  by (cases "py_int s") (auto simp: validate_port_def split: if_splits)

lemmas py_int_eval =
  validate_port_def py_int_def valid_int_body_def is_digit_def int_space_def underscore_def
  digits_value_def digit_val_def max_str_digits_def invalid_literal_def

text \<open>
  C8: \<open>validate_port\<close> returns \<open>(True, port)\<close> for the decimal string of every integer in
  [1024, 65535], and more generally for every string that \<open>int\<close> reads as such an integer; it
  returns \<open>(False, None)\<close> for \<open>1023\<close>, \<open>65536\<close>, a non-numeric string and the empty string,
  and for every string that \<open>int\<close> refuses or reads as an integer outside the range; and on
  no string does an exception leave it (the result is never \<open>Inl\<close>).
\<close>

theorem validate_port_spec:
  "(\<forall>n. 1024 \<le> n \<and> n \<le> 65535 \<longrightarrow> validate_port (py_str n) = Inr (True, Some n))
   \<and> (\<forall>s n. py_int s = Inr n \<and> 1024 \<le> n \<and> n \<le> 65535 \<longrightarrow> validate_port s = Inr (True, Some n))
   \<and> validate_port ''1023'' = Inr (False, None)
   \<and> validate_port ''65536'' = Inr (False, None)
   \<and> validate_port ''abc'' = Inr (False, None)
   \<and> validate_port [] = Inr (False, None)
   \<and> (\<forall>s. (\<forall>n. py_int s = Inr n \<longrightarrow> n < 1024 \<or> 65535 < n) \<longrightarrow> validate_port s = Inr (False, None))
   \<and> (\<forall>s. \<exists>ok p. validate_port s = Inr (ok, p))"
proof -
  have a: "\<forall>n. 1024 \<le> n \<and> n \<le> 65535 \<longrightarrow> validate_port (py_str n) = Inr (True, Some n)"
    by (simp add: validate_port_of_py_str)
  have b: "\<forall>s n. py_int s = Inr n \<and> 1024 \<le> n \<and> n \<le> 65535 \<longrightarrow> validate_port s = Inr (True, Some n)"
    by (simp add: validate_port_accepts)
  have c: "validate_port ''1023'' = Inr (False, None)" by (simp add: py_int_eval)
  have d: "validate_port ''65536'' = Inr (False, None)" by (simp add: py_int_eval)
  have e: "validate_port ''abc'' = Inr (False, None)" by (simp add: py_int_eval)
  have f: "validate_port [] = Inr (False, None)" by (simp add: py_int_eval)
  have g: "\<forall>s. (\<forall>n. py_int s = Inr n \<longrightarrow> n < 1024 \<or> 65535 < n) \<longrightarrow> validate_port s = Inr (False, None)"
    using validate_port_rejects by blast
  have h: "\<forall>s. \<exists>ok p. validate_port s = Inr (ok, p)"
    using validate_port_returns by blast
  from a b c d e f g h show ?thesis by blast
qed

theorem validate_port_spec_witness:
  "validate_port (py_str 8080) = Inr (True, Some 8080)
   \<and> py_int '' +8_080 '' = Inr 8080 \<and> validate_port '' +8_080 '' = Inr (True, Some 8080)
   \<and> py_int ''80'' = Inr 80 \<and> validate_port ''80'' = Inr (False, None)"
proof -
  have a: "py_int '' +8_080 '' = Inr 8080" by (simp add: py_int_eval)
  have b: "py_int ''80'' = Inr 80" by (simp add: py_int_eval)
  have c: "\<forall>n. py_int ''80'' = Inr n \<longrightarrow> n < 1024 \<or> 65535 < n" using b by simp
  from validate_port_spec have
    "validate_port (py_str 8080) = Inr (True, Some 8080)"
    "py_int '' +8_080 '' = Inr 8080 \<and> 1024 \<le> (8080::int) \<and> (8080::int) \<le> 65535
       \<longrightarrow> validate_port '' +8_080 '' = Inr (True, Some 8080)"
    "(\<forall>n. py_int ''80'' = Inr n \<longrightarrow> n < 1024 \<or> 65535 < n) \<longrightarrow> validate_port ''80'' = Inr (False, None)"
    by simp_all
  with a b c show ?thesis by simp
qed

section \<open>Properties of run_assfontsubset\<close>

lemma strip_Nil: "strip [] = []"
  by (simp add: strip_def)

lemma clean_path_blank: "strip s = [] \<Longrightarrow> clean_path s = []"
  by (simp add: clean_path_def re_sub_quotes_def)

lemma validate_dir_path_blank: "strip s = [] \<Longrightarrow> validate_dir_path os w s = (False, msg_path_empty)"
  by (simp add: validate_dir_path_def validate_cleaned_def clean_path_blank)

lemma os_path_join_output_nonempty: "os_path_join d ''output'' \<noteq> []"
  by (simp add: os_path_join_def)

lemma final_output_dir_of_spec:
  "final_output_dir_of (first # others) output_dir = spec_output_dir first output_dir"
  by (auto simp: final_output_dir_of_def spec_output_dir_def strip_Nil)

lemma spec_output_dir_nonempty: "spec_output_dir first output_dir \<noteq> []"
  by (auto simp: spec_output_dir_def os_path_join_output_nonempty strip_Nil)

lemma fonts_part:
  "(if font_dir \<noteq> []
    then (case validate_dir_path os w font_dir of (True, validated) \<Rightarrow> [''--fonts'', validated] | (False, _) \<Rightarrow> [])
    else [])
   = (if fst (validate_dir_path os w font_dir) then [''--fonts'', snd (validate_dir_path os w font_dir)] else [])"
  by (cases "validate_dir_path os w font_dir")
     (auto simp: validate_dir_path_blank strip_Nil split: bool.splits)

lemma bin_part:
  "(if bin_path \<noteq> [] \<and> strip bin_path \<noteq> []
    then (case validate_dir_path os w bin_path of (True, validated) \<Rightarrow> [''--bin-path'', validated] | (False, _) \<Rightarrow> [])
    else [])
   = (if strip bin_path \<noteq> [] \<and> fst (validate_dir_path os w bin_path)
      then [''--bin-path'', snd (validate_dir_path os w bin_path)] else [])"
  by (cases "validate_dir_path os w bin_path")
     (auto simp: strip_Nil split: bool.splits)

lemma build_cmd_spec:
  "out \<noteq> [] \<Longrightarrow>
   build_cmd os w valid out font_dir subset_backend bin_path she debug
   = spec_argv os w valid out font_dir subset_backend bin_path she debug"
  unfolding build_cmd_def spec_argv_def fonts_part bin_part by simp

lemma valid_inputs_of_filter:
  "valid_inputs_of os w input_paths
   = filter (\<lambda>p. path_isfile os w p \<and> endswith (lower p) ''.ass'') (map clean_path input_paths)"
  by (induction input_paths) (auto simp: Let_def)

lemma run_no_valid:
  "valid_inputs_of os w input_paths = [] \<Longrightarrow>
   run_assfontsubset os w input_paths output_dir font_dir subset_backend bin_path she debug
   = (msg_no_valid_inputs, [], w)"
  by (simp add: run_assfontsubset_def)

lemma run_events:
  assumes v: "valid_inputs_of os w input_paths = first # others"
    and m: "makedirs os w (spec_output_dir first output_dir) = (None, w1)"
  shows "\<exists>report logged w2.
           run_assfontsubset os w input_paths output_dir font_dir subset_backend bin_path she debug
           = (report,
              Makedirs (spec_output_dir first output_dir)
              # Spawn (spec_argv os w1 (first # others) (spec_output_dir first output_dir)
                         font_dir subset_backend bin_path she debug)
              # logged, w2)
           \<and> spawned_cmds logged = []"
proof -
  let ?out = "spec_output_dir first output_dir"
  let ?cmd = "spec_argv os w1 (first # others) ?out font_dir subset_backend bin_path she debug"
  have b: "build_cmd os w1 (first # others) ?out font_dir subset_backend bin_path she debug = ?cmd"
    by (rule build_cmd_spec) (rule spec_output_dir_nonempty)
  obtain outcome w2 where s: "subprocess_run os w1 ?cmd = (outcome, w2)"
    by (cases "subprocess_run os w1 ?cmd")
  show ?thesis
    by (cases outcome)
       (simp_all add: run_assfontsubset_def v final_output_dir_of_spec m b s Let_def)
qed

lemma lower_char_dot: "lower_char c = CHR ''.'' \<longleftrightarrow> c = CHR ''.''"
  by (auto simp add: lower_char_def upper_chars_def lower_chars_def split: if_splits)

lemma lower_char_a: "lower_char c = CHR ''a'' \<longleftrightarrow> c = CHR ''a'' \<or> c = CHR ''A''"
  by (auto simp add: lower_char_def upper_chars_def lower_chars_def split: if_splits)

lemma lower_char_s: "lower_char c = CHR ''s'' \<longleftrightarrow> c = CHR ''s'' \<or> c = CHR ''S''"
  by (auto simp add: lower_char_def upper_chars_def lower_chars_def split: if_splits)

lemma length4_cases: "length xs = 4 \<Longrightarrow> \<exists>a b c d. xs = [a, b, c, d]"
  by (cases xs; cases "tl xs"; cases "tl (tl xs)"; cases "tl (tl (tl xs))") auto

lemma endswith_lower_ass:
  "endswith (lower p) ''.ass''
   \<longleftrightarrow> (\<exists>q c1 c2 c3. p = q @ [CHR ''.'', c1, c2, c3]
          \<and> (c1 = CHR ''a'' \<or> c1 = CHR ''A'') \<and> (c2 = CHR ''s'' \<or> c2 = CHR ''S'')
          \<and> (c3 = CHR ''s'' \<or> c3 = CHR ''S''))"
proof
  assume e: "endswith (lower p) ''.ass''"
  then have len: "4 \<le> length p" and d: "map lower_char (drop (length p - 4) p) = ''.ass''"
    by (simp_all add: endswith_def lower_def drop_map eval_nat_numeral)
  from len have "length (drop (length p - 4) p) = 4" by simp
  then obtain a b c d' where abcd: "drop (length p - 4) p = [a, b, c, d']"
    using length4_cases by blast
  with d have "a = CHR ''.''" "b = CHR ''a'' \<or> b = CHR ''A''" "c = CHR ''s'' \<or> c = CHR ''S''"
    "d' = CHR ''s'' \<or> d' = CHR ''S''"
    by (simp_all add: lower_char_dot lower_char_a lower_char_s)
  moreover have "p = take (length p - 4) p @ [a, b, c, d']"
    using abcd by (metis append_take_drop_id)
  ultimately show "\<exists>q c1 c2 c3. p = q @ [CHR ''.'', c1, c2, c3]
          \<and> (c1 = CHR ''a'' \<or> c1 = CHR ''A'') \<and> (c2 = CHR ''s'' \<or> c2 = CHR ''S'')
          \<and> (c3 = CHR ''s'' \<or> c3 = CHR ''S'')"
    by blast
next
  assume "\<exists>q c1 c2 c3. p = q @ [CHR ''.'', c1, c2, c3]
          \<and> (c1 = CHR ''a'' \<or> c1 = CHR ''A'') \<and> (c2 = CHR ''s'' \<or> c2 = CHR ''S'')
          \<and> (c3 = CHR ''s'' \<or> c3 = CHR ''S'')"
  then obtain q c1 c2 c3 where p: "p = q @ [CHR ''.'', c1, c2, c3]"
    and c: "lower_char c1 = CHR ''a''" "lower_char c2 = CHR ''s''" "lower_char c3 = CHR ''s''"
    by (auto simp: lower_char_a lower_char_s)
  have "lower_char (CHR ''.'') = CHR ''.''" by (simp add: lower_char_dot)
  with p c show "endswith (lower p) ''.ass''"
    by (simp add: endswith_def lower_def)
qed

lemmas sample_eval =
  sample_os_def sample_w_def sample_clock_def
  clean_path_def strip_def isspace_def re_sub_quotes_def drop_trailing_quote_def
  is_quote_def dquote_def squote_def newline_def
  lower_def lower_char_def upper_chars_def lower_chars_def endswith_def
  validate_dir_path_def validate_cleaned_def
  os_path_join_def os_path_dirname_def

text \<open>
  C5: of the paths given, \<open>run_assfontsubset\<close> keeps, cleaned, exactly those that are existing
  regular files and whose name ends in \<open>.ass\<close> once lowered, which is to say in \<open>.\<close> followed
  by \<open>a\<close> or \<open>A\<close> and twice \<open>s\<close> or \<open>S\<close>. When none is left, and so for the empty list, it
  returns the "no valid input files" report at once: no event happens, no process is spawned
  and the world is unchanged.
\<close>

theorem run_input_filter:
  "valid_inputs_of os w input_paths
     = filter (\<lambda>p. path_isfile os w p \<and> endswith (lower p) ''.ass'') (map clean_path input_paths)
   \<and> (valid_inputs_of os w input_paths = [] \<longrightarrow>
        run_assfontsubset os w input_paths output_dir font_dir subset_backend bin_path she debug
        = (msg_no_valid_inputs, [], w))
   \<and> run_assfontsubset os w [] output_dir font_dir subset_backend bin_path she debug
        = (msg_no_valid_inputs, [], w)
   \<and> (\<forall>p. endswith (lower p) ''.ass''
          \<longleftrightarrow> (\<exists>q c1 c2 c3. p = q @ [CHR ''.'', c1, c2, c3]
                \<and> (c1 = CHR ''a'' \<or> c1 = CHR ''A'') \<and> (c2 = CHR ''s'' \<or> c2 = CHR ''S'')
                \<and> (c3 = CHR ''s'' \<or> c3 = CHR ''S'')))"
  using valid_inputs_of_filter [of os w input_paths]
    run_no_valid [of os w input_paths output_dir font_dir subset_backend bin_path she debug]
    run_no_valid [of os w "[]" output_dir font_dir subset_backend bin_path she debug]
    endswith_lower_ass
  by simp

theorem run_input_filter_witness:
  "valid_inputs_of sample_os sample_w [''/tmp/y.ass'', ''/tmp/x.txt'', ''/tmp''] = []
   \<and> run_assfontsubset sample_os sample_w [''/tmp/y.ass'', ''/tmp/x.txt'', ''/tmp'']
        ''/out'' ''/fonts'' ''PyFontTools'' [] True False
      = (msg_no_valid_inputs, [], sample_w)"
proof -
  have a: "valid_inputs_of sample_os sample_w [''/tmp/y.ass'', ''/tmp/x.txt'', ''/tmp''] = []"
    by (simp add: sample_eval)
  show ?thesis
    using a run_input_filter [of sample_os sample_w "[''/tmp/y.ass'', ''/tmp/x.txt'', ''/tmp'']"
        "''/out''" "''/fonts''" "''PyFontTools''" "[]" True False]
    by simp
qed

text \<open>
  C1: when at least one input is valid and \<open>os.makedirs\<close> of the resolved output directory
  does not raise, the first two events of \<open>run_assfontsubset\<close> are the creation of that
  directory and the spawning of exactly the argument vector of the specification, the
  directory validations being made in the world \<open>os.makedirs\<close> leaves; nothing else is
  spawned. The guards of the source on an empty resolved directory, an empty \<open>font_dir\<close> and
  a blank \<open>bin_path\<close> change nothing: the resolved directory is never empty, and an empty or
  blank path does not validate.
\<close>

theorem run_argument_vector:
  assumes "valid_inputs_of os w input_paths = first # others"
    and "makedirs os w (spec_output_dir first output_dir) = (None, w1)"
  shows "take 2 (fst (snd (run_assfontsubset os w input_paths output_dir font_dir subset_backend
                             bin_path she debug)))
         = [Makedirs (spec_output_dir first output_dir),
            Spawn (spec_argv os w1 (first # others) (spec_output_dir first output_dir)
                     font_dir subset_backend bin_path she debug)]
         \<and> spawned_cmds (drop 2 (fst (snd (run_assfontsubset os w input_paths output_dir font_dir
                                             subset_backend bin_path she debug)))) = []"
  using run_events [OF assms, of font_dir subset_backend bin_path she debug] by auto

theorem run_argument_vector_witness:
  "take 2 (fst (snd (run_assfontsubset sample_os sample_w
                       [dquote # ''/tmp/x.ass'' @ [dquote], ''/tmp/notes.txt'']
                       [] ''/fonts'' ''HarfBuzzSubset'' '' '' False True)))
   = [Makedirs ''/tmp/output'',
      Spawn [''./AssFontSubset.Console'', ''/tmp/x.ass'', ''--output'', ''/tmp/output'',
             ''--fonts'', ''/fonts'', ''--subset-backend'', ''HarfBuzzSubset'',
             ''--no-source-han-ellipsis'', ''--debug'']]"
proof -
  let ?w1 = "sample_w\<lparr>sw_dirs := ''/tmp/output'' # sw_dirs sample_w\<rparr>"
  have v: "valid_inputs_of sample_os sample_w [dquote # ''/tmp/x.ass'' @ [dquote], ''/tmp/notes.txt'']
           = ''/tmp/x.ass'' # []"
    by (simp add: sample_eval)
  have o: "spec_output_dir ''/tmp/x.ass'' [] = ''/tmp/output''"
    by (simp add: spec_output_dir_def sample_eval)
  have m: "makedirs sample_os sample_w (spec_output_dir ''/tmp/x.ass'' []) = (None, ?w1)"
    unfolding o by (simp add: sample_os_def sample_w_def)
  have c: "spec_argv sample_os ?w1 [''/tmp/x.ass''] ''/tmp/output'' ''/fonts'' ''HarfBuzzSubset'' '' '' False True
           = [''./AssFontSubset.Console'', ''/tmp/x.ass'', ''--output'', ''/tmp/output'',
              ''--fonts'', ''/fonts'', ''--subset-backend'', ''HarfBuzzSubset'',
              ''--no-source-han-ellipsis'', ''--debug'']"
    by (simp add: spec_argv_def sample_eval)
  show ?thesis
    using run_argument_vector [OF v m, of "''/fonts''" "''HarfBuzzSubset''" "'' ''" False True]
    unfolding o c by simp
qed

section \<open>Properties of load_config\<close>

lemma dict_keys_set: "k \<in> set (dict_keys d) \<Longrightarrow> dict_keys (dict_set d k v) = dict_keys d"
  by (induction d) (force simp: dict_keys_def)+

lemma dict_get_set: "dict_get (dict_set d k v) k' = (if k' = k then Some v else dict_get d k')"
  by (induction d) (auto simp: dict_get_def)

lemma load_item_keys: "load_item os w key value vc = Inr vc' \<Longrightarrow> dict_keys vc' = dict_keys vc"
  by (auto simp: load_item_def dict_keys_set split: if_splits sum.splits prod.splits)

lemma load_item_other:
  "load_item os w key value vc = Inr vc' \<Longrightarrow> k \<noteq> key \<Longrightarrow> dict_get vc' k = dict_get vc k"
  by (auto simp: load_item_def dict_get_set split: if_splits sum.splits prod.splits)

lemma load_item_unknown:
  "key \<notin> set (dict_keys vc) \<Longrightarrow> load_item os w key value vc = Inr vc"
  by (simp add: load_item_def)

lemma load_items_keys: "load_items os w items vc = Inr vc' \<Longrightarrow> dict_keys vc' = dict_keys vc"
proof (induction items arbitrary: vc)
  case Nil
  then show ?case by simp
next
  case (Cons kv items)
  obtain key val where kv: "kv = (key, val)" by (cases kv)
  from Cons.prems kv obtain vc1 where 1: "load_item os w key val vc = Inr vc1"
    and 2: "load_items os w items vc1 = Inr vc'"
    by (auto split: sum.splits)
  from Cons.IH [OF 2] load_item_keys [OF 1] show ?case by simp
qed

lemma load_items_other:
  "load_items os w items vc = Inr vc' \<Longrightarrow> k \<notin> set (map fst items) \<Longrightarrow> dict_get vc' k = dict_get vc k"
proof (induction items arbitrary: vc)
  case Nil
  then show ?case by simp
next
  case (Cons kv items)
  obtain key val where kv: "kv = (key, val)" by (cases kv)
  from Cons.prems kv obtain vc1 where 1: "load_item os w key val vc = Inr vc1"
    and 2: "load_items os w items vc1 = Inr vc'"
    by (auto split: sum.splits)
  from Cons.prems kv have "k \<noteq> key" "k \<notin> set (map fst items)" by auto
  with Cons.IH [OF 2] load_item_other [OF 1] show ?case by simp
qed

text \<open>With distinct keys, what the loop leaves under a key is what the body left there.\<close>

lemma load_items_at:
  assumes "load_items os w items vc = Inr vc'" "distinct (map fst items)" "(k, v) \<in> set items"
  shows "\<exists>vc0 vc1. load_item os w k v vc0 = Inr vc1 \<and> dict_keys vc0 = dict_keys vc
                   \<and> dict_get vc0 k = dict_get vc k \<and> dict_get vc' k = dict_get vc1 k"
  using assms
proof (induction items arbitrary: vc)
  case Nil
  then show ?case by simp
next
  case (Cons kv items)
  obtain key val where kv: "kv = (key, val)" by (cases kv)
  from Cons.prems(1) kv obtain vc1 where 1: "load_item os w key val vc = Inr vc1"
    and 2: "load_items os w items vc1 = Inr vc'"
    by (auto split: sum.splits)
  show ?case
  proof (cases "(k, v) = (key, val)")
    case True
    with Cons.prems(2) kv have "k \<notin> set (map fst items)" by auto
    from load_items_other [OF 2 this] have "dict_get vc' k = dict_get vc1 k" .
    with 1 True show ?thesis by auto
  next
    case False
    with Cons.prems kv have in_rest: "(k, v) \<in> set items" and d: "distinct (map fst items)"
      and "k \<noteq> key"
      by (auto simp: rev_image_eqI)
    from Cons.IH [OF 2 d in_rest] obtain vc0 vc2 where
      "load_item os w k v vc0 = Inr vc2" "dict_keys vc0 = dict_keys vc1"
      "dict_get vc0 k = dict_get vc1 k" "dict_get vc' k = dict_get vc2 k"
      by blast
    with load_item_keys [OF 1] load_item_other [OF 1 \<open>k \<noteq> key\<close>] show ?thesis
      by (intro exI [of _ vc0] exI [of _ vc2]) simp
  qed
qed

lemma load_config_absent:
  "\<not> path_exists os w (resolved_config_path os config_path) \<Longrightarrow>
   load_config os w config_path = ((DEFAULT_CONFIG, None), [])"
  by (simp add: load_config_def resolved_config_path_def Let_def)

lemma load_config_raises:
  "path_exists os w (resolved_config_path os config_path) \<Longrightarrow>
   json_load os w (resolved_config_path os config_path) = Inl e \<Longrightarrow>
   load_config os w config_path
   = ((DEFAULT_CONFIG, Some (msg_load_failed @ exn_str e)), [Log (msg_load_failed @ exn_str e)])"
  by (simp add: load_config_def resolved_config_path_def Let_def)

lemma load_config_not_dict:
  "path_exists os w (resolved_config_path os config_path) \<Longrightarrow>
   json_load os w (resolved_config_path os config_path) = Inr v \<Longrightarrow> \<not> is_dict v \<Longrightarrow>
   load_config os w config_path = ((DEFAULT_CONFIG, None), [])"
  by (cases v) (simp_all add: load_config_def resolved_config_path_def Let_def)

lemma load_config_dict:
  "path_exists os w (resolved_config_path os config_path) \<Longrightarrow>
   json_load os w (resolved_config_path os config_path) = Inr (PDict items) \<Longrightarrow>
   load_config os w config_path
   = (case load_items os w items DEFAULT_CONFIG of
        Inl e \<Rightarrow> ((DEFAULT_CONFIG, Some (msg_load_failed @ exn_str e)),
                  [Log (msg_load_failed @ exn_str e)])
      | Inr valid_config \<Rightarrow> ((valid_config, None), []))"
  by (simp add: load_config_def resolved_config_path_def Let_def)

lemma load_config_error_default:
  "snd (fst (load_config os w config_path)) \<noteq> None \<Longrightarrow>
   fst (fst (load_config os w config_path)) = DEFAULT_CONFIG"
  by (auto simp: load_config_def Let_def split: if_splits sum.splits pyval.splits)

lemma load_config_ok_items:
  assumes "path_exists os w (resolved_config_path os config_path)"
    and "json_load os w (resolved_config_path os config_path) = Inr (PDict items)"
    and "snd (fst (load_config os w config_path)) = None"
  shows "load_items os w items DEFAULT_CONFIG = Inr (fst (fst (load_config os w config_path)))"
  using assms(3) unfolding load_config_dict [OF assms(1,2)]
  by (cases "load_items os w items DEFAULT_CONFIG") simp_all

lemma msg_load_failed_nonempty: "msg_load_failed @ s \<noteq> []"
  by (simp add: msg_load_failed_def)

lemma default_keys:
  "dict_keys DEFAULT_CONFIG
   = [''input_paths'', ''output_dir'', ''font_dir'', ''subset_backend'', ''bin_path'',
      ''source_han_ellipsis'', ''debug'', ''server_port'']"
  by (simp add: DEFAULT_CONFIG_def dict_keys_def)

lemma path_keys:
  "\<not> is_path_key ''input_paths''" "is_path_key ''output_dir''" "is_path_key ''font_dir''"
  "is_path_key ''bin_path''" "\<not> is_path_key ''subset_backend''"
  "\<not> is_path_key ''source_han_ellipsis''" "\<not> is_path_key ''debug''" "\<not> is_path_key ''server_port''"
  by (simp_all add: is_path_key_def endswith_def)

lemma clean_path_any_str: "clean_path_any (PStr s) = Inr (clean_path s)"
  by (simp add: clean_path_any_def clean_path_def)

lemma validate_dir_path_any_str:
  "validate_dir_path_any os w (PStr s) = Inr (validate_dir_path os w s)"
  by (simp add: validate_dir_path_any_def validate_dir_path_def clean_path_any_str)

lemma validate_dir_path_True:
  "validate_dir_path os w s = (True, r) \<Longrightarrow>
   clean_path s \<noteq> [] \<and> path_is_dir os w (clean_path s) = Inr True
   \<and> path_resolve os w (clean_path s) = Inr r"
  by (auto simp: validate_dir_path_def validate_cleaned_def split: if_splits sum.splits bool.splits)

text \<open>On failure the second component is the message, which is never empty.\<close>

lemma validate_dir_path_False:
  "validate_dir_path os w s = (False, m) \<Longrightarrow> m \<noteq> []"
  by (auto simp: validate_dir_path_def validate_cleaned_def msg_path_empty_def msg_not_a_dir_def
      msg_validate_failed_def split: if_splits sum.splits bool.splits)

lemma validate_each_all_valid:
  "list_all (valid_dir_entry os w) vs \<Longrightarrow>
   validate_each os w vs = Inr (map (resolved_entry os w) vs)"
proof (induction vs)
  case Nil
  then show ?case by simp
next
  case (Cons v vs)
  then obtain s where s: "v = PStr s" "fst (validate_dir_path os w s)"
    "snd (validate_dir_path os w s) \<noteq> []"
    by (auto simp: valid_dir_entry_def split: pyval.splits)
  with Cons show ?case
    by (cases "validate_dir_path os w s")
       (simp add: validate_dir_path_any_str resolved_entry_def)
qed

lemmas sample_eval2 =
  sample_os_def sample_w_def sample_clock_def
  clean_path_def strip_def isspace_def re_sub_quotes_def drop_trailing_quote_def
  is_quote_def dquote_def squote_def newline_def
  lower_def lower_char_def upper_chars_def lower_chars_def endswith_def
  validate_dir_path_def validate_cleaned_def
  os_path_join_def os_path_dirname_def
  load_config_def load_item_def DEFAULT_CONFIG_def DEFAULT_PORT_def DEFAULT_CONFIG_PATH_def
  dict_keys_def dict_get_def is_path_key_def
  validate_dir_path_any_def clean_path_any_def resolved_config_path_def json_error_of_def

text \<open>
  C3, as stated: every existing file whose content does not parse as an object, valid JSON
  that is not an object included, loads as the defaults with an error that is not \<open>None\<close>.
  The file \<open>/cfg/list.json\<close> exists and holds the JSON list \<open>[1, 2]\<close>; \<open>load_config\<close> returns
  the defaults and \<open>None\<close> for the error, and logs nothing.
\<close>

theorem load_config_not_object_counterexample:
  "path_exists sample_os sample_w ''/cfg/list.json''
   \<and> json_load sample_os sample_w ''/cfg/list.json'' = Inr (PList [PInt 1, PInt 2])
   \<and> load_config sample_os sample_w ''/cfg/list.json'' = ((DEFAULT_CONFIG, None), [])"
  by (simp add: sample_eval2)

text \<open>
  C3, amended: for an existing file, when opening, decoding or parsing raises, \<open>load_config\<close>
  returns the defaults with the error \<open>msg_load_failed\<close> followed by the text of the
  exception, which is not empty; when the content is valid JSON but not an object, it
  returns the defaults with no error; and whenever it returns an error, the document is the
  defaults, so nothing of the file is applied.
\<close>

theorem load_config_unparseable:
  assumes "path_exists os w (resolved_config_path os config_path)"
  shows "(json_load os w (resolved_config_path os config_path) = Inl e \<longrightarrow>
            load_config os w config_path
            = ((DEFAULT_CONFIG, Some (msg_load_failed @ exn_str e)),
               [Log (msg_load_failed @ exn_str e)])
            \<and> msg_load_failed @ exn_str e \<noteq> [])
         \<and> (json_load os w (resolved_config_path os config_path) = Inr v \<and> \<not> is_dict v \<longrightarrow>
            load_config os w config_path = ((DEFAULT_CONFIG, None), []))
         \<and> (snd (fst (load_config os w config_path)) \<noteq> None \<longrightarrow>
            fst (fst (load_config os w config_path)) = DEFAULT_CONFIG)"
  using load_config_raises [OF assms] load_config_not_dict [OF assms]
    load_config_error_default [of os w config_path] msg_load_failed_nonempty
  by blast

theorem load_config_unparseable_witness:
  "load_config sample_os sample_w ''/cfg/broken.json''
   = ((DEFAULT_CONFIG,
       Some (msg_load_failed @ ''Expecting property name enclosed in double quotes: line 1 column 2 (char 1)'')),
      [Log (msg_load_failed @ ''Expecting property name enclosed in double quotes: line 1 column 2 (char 1)'')])
   \<and> load_config sample_os sample_w ''/cfg/list.json'' = ((DEFAULT_CONFIG, None), [])
   \<and> fst (fst (load_config sample_os sample_w ''/cfg/broken.json'')) = DEFAULT_CONFIG"
proof -
  have p1: "path_exists sample_os sample_w (resolved_config_path sample_os ''/cfg/broken.json'')"
    and p2: "path_exists sample_os sample_w (resolved_config_path sample_os ''/cfg/list.json'')"
    by (simp_all add: sample_eval2)
  have j1: "json_load sample_os sample_w (resolved_config_path sample_os ''/cfg/broken.json'')
            = Inl (Exn ValueError ''Expecting property name enclosed in double quotes: line 1 column 2 (char 1)'')"
    and j2: "json_load sample_os sample_w (resolved_config_path sample_os ''/cfg/list.json'')
            = Inr (PList [PInt 1, PInt 2])"
    by (simp_all add: sample_eval2)
  have nd: "\<not> is_dict (PList [PInt 1, PInt 2])" by simp
  from load_config_unparseable [OF p1, of "Exn ValueError ''Expecting property name enclosed in double quotes: line 1 column 2 (char 1)''"] j1
  have a: "load_config sample_os sample_w ''/cfg/broken.json''
     = ((DEFAULT_CONFIG, Some (msg_load_failed @ ''Expecting property name enclosed in double quotes: line 1 column 2 (char 1)'')),
        [Log (msg_load_failed @ ''Expecting property name enclosed in double quotes: line 1 column 2 (char 1)'')])"
    by simp
  from load_config_unparseable [OF p2, of _ "PList [PInt 1, PInt 2]"] j2 nd
  have b: "load_config sample_os sample_w ''/cfg/list.json'' = ((DEFAULT_CONFIG, None), [])"
    by simp
  from a b show ?thesis by simp
qed

text \<open>
  C10: when the file holds an object whose \<open>input_paths\<close> is not a list, and loading
  returns no error, the document returned holds that very value under \<open>input_paths\<close>.
\<close>

theorem load_config_input_paths_verbatim:
  assumes "path_exists os w (resolved_config_path os config_path)"
    and "json_load os w (resolved_config_path os config_path) = Inr (PDict items)"
    and "distinct (map fst items)"
    and "(''input_paths'', v) \<in> set items"
    and "\<not> is_list v"
    and "snd (fst (load_config os w config_path)) = None"
  shows "dict_get (fst (fst (load_config os w config_path))) ''input_paths'' = Some v"
proof -
  have li: "load_items os w items DEFAULT_CONFIG = Inr (fst (fst (load_config os w config_path)))"
    by (rule load_config_ok_items [OF assms(1,2,6)])
  from load_items_at [OF li assms(3,4)] obtain vc0 vc1 where
    1: "load_item os w ''input_paths'' v vc0 = Inr vc1" and k: "dict_keys vc0 = dict_keys DEFAULT_CONFIG"
    and g: "dict_get (fst (fst (load_config os w config_path))) ''input_paths'' = dict_get vc1 ''input_paths''"
    by blast
  have "''input_paths'' \<in> set (dict_keys vc0)" by (simp add: k default_keys)
  with 1 assms(5) have "vc1 = dict_set vc0 ''input_paths'' v"
    by (simp add: load_item_def path_keys)
  with g show ?thesis by (simp add: dict_get_set)
qed

theorem load_config_input_paths_verbatim_witness:
  "dict_get (fst (fst (load_config sample_os sample_w ''/cfg/fonts.json''))) ''input_paths''
   = Some (PStr ''/tmp/x.ass'')"
proof -
  let ?items = "[(''font_dir'', PStr ''/fonts''), (''theme'', PStr ''dark''),
                 (''input_paths'', PStr ''/tmp/x.ass'')]"
  have p: "path_exists sample_os sample_w (resolved_config_path sample_os ''/cfg/fonts.json'')"
    by (simp add: sample_eval2)
  have j: "json_load sample_os sample_w (resolved_config_path sample_os ''/cfg/fonts.json'')
           = Inr (PDict ?items)"
    by (simp add: sample_eval2)
  have d: "distinct (map fst ?items)" by simp
  have m: "(''input_paths'', PStr ''/tmp/x.ass'') \<in> set ?items" by simp
  have n: "\<not> is_list (PStr ''/tmp/x.ass'')" by simp
  have e: "snd (fst (load_config sample_os sample_w ''/cfg/fonts.json'')) = None"
    by (simp add: sample_eval2)
  show ?thesis by (rule load_config_input_paths_verbatim [OF p j d m n e])
qed

text \<open>
  C2, as stated: every non-empty path field of a loaded document, \<open>output_dir\<close> included, is
  an absolute, existing path of the right kind. The file \<open>/cfg/out.json\<close> holds
  \<open>{"output_dir": "not/a/dir"}\<close>; it loads without error and the document holds
  \<open>not/a/dir\<close>, which is no directory and does not exist.
\<close>

theorem load_config_output_dir_counterexample:
  "snd (fst (load_config sample_os sample_w ''/cfg/out.json'')) = None
   \<and> dict_get (fst (fst (load_config sample_os sample_w ''/cfg/out.json''))) ''output_dir''
       = Some (PStr ''not/a/dir'')
   \<and> path_is_dir sample_os sample_w ''not/a/dir'' = Inr False
   \<and> \<not> path_exists sample_os sample_w ''not/a/dir''"
  by (simp add: sample_eval2)

lemma load_item_output_dir:
  "''output_dir'' \<in> set (dict_keys vc0) \<Longrightarrow> load_item os w ''output_dir'' v vc0 = Inr vc1 \<Longrightarrow>
   dict_get vc1 ''output_dir'' = Some (if v \<noteq> PNone then v else PStr [])"
  by (auto simp: load_item_def path_keys dict_get_set)

lemma load_item_validated:
  assumes "k = ''font_dir'' \<or> k = ''bin_path''" "k \<in> set (dict_keys vc0)"
    and "load_item os w k (PStr s) vc0 = Inr vc1"
    and "validate_dir_path os w s = (True, r)" "r \<noteq> []"
  shows "dict_get vc1 k = Some (PStr r)"
  using assms by (auto simp: load_item_def path_keys validate_dir_path_any_str dict_get_set)

lemma load_item_input_paths:
  assumes "''input_paths'' \<in> set (dict_keys vc0)"
    and "load_item os w ''input_paths'' (PList vs) vc0 = Inr vc1"
    and "list_all (valid_dir_entry os w) vs"
  shows "dict_get vc1 ''input_paths'' = Some (PList (map (resolved_entry os w) vs))"
  using assms
  by (auto simp: load_item_def path_keys validate_each_all_valid dict_get_set)

text \<open>
  C2, amended: when a file holding an object loads without error, the document has exactly
  the keys of the defaults; a key the file does not have keeps its default; \<open>output_dir\<close> is
  the value of the file, whatever it is, with \<open>null\<close> replaced by the empty string;
  \<open>font_dir\<close> and \<open>bin_path\<close>, when the value of the file is a string that validates as a
  directory, hold the resolved path of that existing directory; and a list under
  \<open>input_paths\<close> whose entries all validate as directories is stored as the list of their
  resolved paths. What is stored for an entry that does not validate is not part of the
  statement.
\<close>

theorem load_config_path_fields:
  assumes ex: "path_exists os w (resolved_config_path os config_path)"
    and js: "json_load os w (resolved_config_path os config_path) = Inr (PDict items)"
    and di: "distinct (map fst items)"
    and ok: "snd (fst (load_config os w config_path)) = None"
  shows "dict_keys (fst (fst (load_config os w config_path))) = dict_keys DEFAULT_CONFIG
     \<and> (k \<notin> set (map fst items) \<longrightarrow>
          dict_get (fst (fst (load_config os w config_path))) k = dict_get DEFAULT_CONFIG k)
     \<and> ((''output_dir'', v) \<in> set items \<longrightarrow>
          dict_get (fst (fst (load_config os w config_path))) ''output_dir''
          = Some (if v \<noteq> PNone then v else PStr []))
     \<and> ((k = ''font_dir'' \<or> k = ''bin_path'') \<and> (k, PStr s) \<in> set items
          \<and> validate_dir_path os w s = (True, r) \<and> r \<noteq> [] \<longrightarrow>
          dict_get (fst (fst (load_config os w config_path))) k = Some (PStr r)
          \<and> path_is_dir os w (clean_path s) = Inr True
          \<and> path_resolve os w (clean_path s) = Inr r)
     \<and> ((''input_paths'', PList vs) \<in> set items \<and> list_all (valid_dir_entry os w) vs \<longrightarrow>
          dict_get (fst (fst (load_config os w config_path))) ''input_paths''
          = Some (PList (map (resolved_entry os w) vs)))"
proof -
  let ?doc = "fst (fst (load_config os w config_path))"
  have li: "load_items os w items DEFAULT_CONFIG = Inr ?doc"
    by (rule load_config_ok_items [OF ex js ok])
  have keys: "dict_keys ?doc = dict_keys DEFAULT_CONFIG"
    by (rule load_items_keys [OF li])
  have missing: "k \<notin> set (map fst items) \<longrightarrow> dict_get ?doc k = dict_get DEFAULT_CONFIG k"
    using load_items_other [OF li] by blast
  have out: "(''output_dir'', v) \<in> set items \<longrightarrow>
      dict_get ?doc ''output_dir'' = Some (if v \<noteq> PNone then v else PStr [])"
  proof
    assume "(''output_dir'', v) \<in> set items"
    from load_items_at [OF li di this] obtain vc0 vc1 where
      "load_item os w ''output_dir'' v vc0 = Inr vc1" "dict_keys vc0 = dict_keys DEFAULT_CONFIG"
      "dict_get ?doc ''output_dir'' = dict_get vc1 ''output_dir''"
      by blast
    then show "dict_get ?doc ''output_dir'' = Some (if v \<noteq> PNone then v else PStr [])"
      using load_item_output_dir [of vc0 os w v vc1] by (simp add: default_keys)
  qed
  have dirs: "(k = ''font_dir'' \<or> k = ''bin_path'') \<and> (k, PStr s) \<in> set items
      \<and> validate_dir_path os w s = (True, r) \<and> r \<noteq> [] \<longrightarrow>
      dict_get ?doc k = Some (PStr r) \<and> path_is_dir os w (clean_path s) = Inr True
      \<and> path_resolve os w (clean_path s) = Inr r"
  proof
    assume a: "(k = ''font_dir'' \<or> k = ''bin_path'') \<and> (k, PStr s) \<in> set items
      \<and> validate_dir_path os w s = (True, r) \<and> r \<noteq> []"
    then have mem: "(k, PStr s) \<in> set items" by simp
    from load_items_at [OF li di mem] obtain vc0 vc1 where
      1: "load_item os w k (PStr s) vc0 = Inr vc1" and 2: "dict_keys vc0 = dict_keys DEFAULT_CONFIG"
      and 3: "dict_get ?doc k = dict_get vc1 k"
      by blast
    from a 2 have "k \<in> set (dict_keys vc0)" by (auto simp: default_keys)
    with a 1 have "dict_get vc1 k = Some (PStr r)"
      by (intro load_item_validated [of k vc0 os w s vc1 r]) simp_all
    with 3 a validate_dir_path_True [of os w s r]
    show "dict_get ?doc k = Some (PStr r) \<and> path_is_dir os w (clean_path s) = Inr True
      \<and> path_resolve os w (clean_path s) = Inr r"
      by simp
  qed
  have inputs: "(''input_paths'', PList vs) \<in> set items \<and> list_all (valid_dir_entry os w) vs \<longrightarrow>
      dict_get ?doc ''input_paths'' = Some (PList (map (resolved_entry os w) vs))"
  proof
    assume a: "(''input_paths'', PList vs) \<in> set items \<and> list_all (valid_dir_entry os w) vs"
    then have mem: "(''input_paths'', PList vs) \<in> set items" by simp
    from load_items_at [OF li di mem] obtain vc0 vc1 where
      1: "load_item os w ''input_paths'' (PList vs) vc0 = Inr vc1"
      and 2: "dict_keys vc0 = dict_keys DEFAULT_CONFIG"
      and 3: "dict_get ?doc ''input_paths'' = dict_get vc1 ''input_paths''"
      by blast
    from 2 have "''input_paths'' \<in> set (dict_keys vc0)" by (simp add: default_keys)
    from load_item_input_paths [OF this 1] a 3
    show "dict_get ?doc ''input_paths'' = Some (PList (map (resolved_entry os w) vs))"
      by simp
  qed
  from keys missing out dirs inputs show ?thesis by blast
qed

theorem load_config_path_fields_witness:
  "dict_keys (fst (fst (load_config sample_os sample_w ''/cfg/fonts.json''))) = dict_keys DEFAULT_CONFIG
   \<and> dict_get (fst (fst (load_config sample_os sample_w ''/cfg/fonts.json''))) ''bin_path''
       = dict_get DEFAULT_CONFIG ''bin_path''
   \<and> dict_get (fst (fst (load_config sample_os sample_w ''/cfg/fonts.json''))) ''theme'' = None
   \<and> dict_get (fst (fst (load_config sample_os sample_w ''/cfg/fonts.json''))) ''font_dir''
       = Some (PStr ''/fonts'')
   \<and> path_is_dir sample_os sample_w ''/fonts'' = Inr True"
proof -
  let ?items = "[(''font_dir'', PStr ''/fonts''), (''theme'', PStr ''dark''),
                 (''input_paths'', PStr ''/tmp/x.ass'')]"
  have p: "path_exists sample_os sample_w (resolved_config_path sample_os ''/cfg/fonts.json'')"
    by (simp add: sample_eval2)
  have j: "json_load sample_os sample_w (resolved_config_path sample_os ''/cfg/fonts.json'')
           = Inr (PDict ?items)"
    by (simp add: sample_eval2)
  have d: "distinct (map fst ?items)" by simp
  have e: "snd (fst (load_config sample_os sample_w ''/cfg/fonts.json'')) = None"
    by (simp add: sample_eval2)
  have v: "validate_dir_path sample_os sample_w ''/fonts'' = (True, ''/fonts'')"
    by (simp add: sample_eval2)
  have c: "clean_path ''/fonts'' = ''/fonts''" by (simp add: sample_eval2)
  from load_config_path_fields [OF p j d e, of "''bin_path''"]
  have 1: "dict_keys (fst (fst (load_config sample_os sample_w ''/cfg/fonts.json''))) = dict_keys DEFAULT_CONFIG"
    and 2: "dict_get (fst (fst (load_config sample_os sample_w ''/cfg/fonts.json''))) ''bin_path''
       = dict_get DEFAULT_CONFIG ''bin_path''"
    by simp_all
  have "''theme'' \<notin> set (dict_keys (fst (fst (load_config sample_os sample_w ''/cfg/fonts.json''))))"
    unfolding 1 by (simp add: default_keys)
  then have 3: "dict_get (fst (fst (load_config sample_os sample_w ''/cfg/fonts.json''))) ''theme'' = None"
    by (simp add: dict_get_def dict_keys_def map_of_eq_None_iff)
  from load_config_path_fields [OF p j d e, of "''font_dir''" _ "''/fonts''" "''/fonts''"] v c
  have 4: "dict_get (fst (fst (load_config sample_os sample_w ''/cfg/fonts.json''))) ''font_dir''
       = Some (PStr ''/fonts'') \<and> path_is_dir sample_os sample_w ''/fonts'' = Inr True"
    by simp
  from 1 2 3 4 show ?thesis by simp
qed

text \<open>The second sentence of C4: unrecognized keys are ignored, missing keys keep their defaults.\<close>

lemma load_config_unrecognized_and_missing:
  assumes "path_exists os w (resolved_config_path os config_path)"
    and "json_load os w (resolved_config_path os config_path) = Inr (PDict items)"
    and "snd (fst (load_config os w config_path)) = None"
  shows "dict_keys (fst (fst (load_config os w config_path))) = dict_keys DEFAULT_CONFIG"
    and "k \<notin> set (map fst items) \<Longrightarrow>
         dict_get (fst (fst (load_config os w config_path))) k = dict_get DEFAULT_CONFIG k"
    and "k \<notin> set (dict_keys DEFAULT_CONFIG) \<Longrightarrow>
         dict_get (fst (fst (load_config os w config_path))) k = None"
proof -
  let ?doc = "fst (fst (load_config os w config_path))"
  have li: "load_items os w items DEFAULT_CONFIG = Inr ?doc"
    by (rule load_config_ok_items [OF assms])
  show keys: "dict_keys ?doc = dict_keys DEFAULT_CONFIG"
    by (rule load_items_keys [OF li])
  show "k \<notin> set (map fst items) \<Longrightarrow> dict_get ?doc k = dict_get DEFAULT_CONFIG k"
    by (rule load_items_other [OF li])
  assume "k \<notin> set (dict_keys DEFAULT_CONFIG)"
  with keys have "k \<notin> set (map fst ?doc)" by (simp add: dict_keys_def)
  then show "dict_get ?doc k = None"
    by (simp add: dict_get_def map_of_eq_None_iff)
qed

text \<open>
  Whatever the environment, a file that holds the default document does not load as the
  default document: the empty \<open>font_dir\<close> and \<open>bin_path\<close> come back as the message of
  \<open>validate_dir_path\<close>.
\<close>

lemma load_items_default:
  "load_items os w DEFAULT_CONFIG DEFAULT_CONFIG
   = Inr [(''input_paths'', PList []), (''output_dir'', PStr []), (''font_dir'', PStr msg_path_empty),
          (''subset_backend'', PStr ''PyFontTools''), (''bin_path'', PStr msg_path_empty),
          (''source_han_ellipsis'', PBool True), (''debug'', PBool False),
          (''server_port'', PInt DEFAULT_PORT)]"
  by (simp add: DEFAULT_CONFIG_def load_item_def dict_keys_def is_path_key_def endswith_def
      validate_dir_path_any_def clean_path_any_def validate_cleaned_def msg_path_empty_def)

text \<open>
  C4 at the default document: saved to \<open>/cfg/c.json\<close> and loaded again from the world the
  save leaves, it comes back without error and with \<open>font_dir\<close> changed from the empty string
  to the message of \<open>validate_dir_path\<close>.
\<close>

theorem save_then_load_default:
  "fst (save_config sample_os sample_w ''/cfg'' ''c'' DEFAULT_CONFIG)
     = (True, msg_saved_to @ ''/cfg/c.json'')
   \<and> snd (fst (load_config sample_os
                  (snd (snd (save_config sample_os sample_w ''/cfg'' ''c'' DEFAULT_CONFIG)))
                  ''/cfg/c.json'')) = None
   \<and> dict_get (fst (fst (load_config sample_os
                  (snd (snd (save_config sample_os sample_w ''/cfg'' ''c'' DEFAULT_CONFIG)))
                  ''/cfg/c.json''))) ''font_dir'' = Some (PStr msg_path_empty)
   \<and> dict_get DEFAULT_CONFIG ''font_dir'' = Some (PStr [])
   \<and> msg_path_empty \<noteq> []"
proof -
  let ?w1 = "sample_w\<lparr>sw_files := (''/cfg/c.json'', Json (PDict DEFAULT_CONFIG)) # sw_files sample_w\<rparr>"
  have s: "save_config sample_os sample_w ''/cfg'' ''c'' DEFAULT_CONFIG
           = ((True, msg_saved_to @ ''/cfg/c.json''),
              [Makedirs ''/cfg'', JsonDump ''/cfg/c.json'' (PDict DEFAULT_CONFIG) 2 False], ?w1)"
    by (simp add: save_config_def sample_os_def sample_w_def clean_path_def strip_def isspace_def
        re_sub_quotes_def drop_trailing_quote_def is_quote_def dquote_def squote_def newline_def
        lower_def lower_char_def upper_chars_def lower_chars_def endswith_def
        validate_dir_path_def validate_cleaned_def os_path_join_def Let_def)
  have p: "path_exists sample_os ?w1 (resolved_config_path sample_os ''/cfg/c.json'')"
    and j: "json_load sample_os ?w1 (resolved_config_path sample_os ''/cfg/c.json'') = Inr (PDict DEFAULT_CONFIG)"
    by (simp_all add: sample_os_def sample_w_def resolved_config_path_def clean_path_def strip_def
        isspace_def re_sub_quotes_def drop_trailing_quote_def is_quote_def dquote_def squote_def
        newline_def)
  have l: "fst (load_config sample_os ?w1 ''/cfg/c.json'')
      = ([(''input_paths'', PList []), (''output_dir'', PStr []), (''font_dir'', PStr msg_path_empty),
          (''subset_backend'', PStr ''PyFontTools''), (''bin_path'', PStr msg_path_empty),
          (''source_han_ellipsis'', PBool True), (''debug'', PBool False),
          (''server_port'', PInt DEFAULT_PORT)], None)"
    unfolding load_config_dict [OF p j] load_items_default by simp
  have d: "dict_get DEFAULT_CONFIG ''font_dir'' = Some (PStr [])"
    by (simp add: DEFAULT_CONFIG_def dict_get_def)
  have m: "msg_path_empty \<noteq> []" by (simp add: msg_path_empty_def)
  show ?thesis unfolding s using l d m by (simp add: dict_get_def)
qed

section \<open>Properties of save_config\<close>

lemma lower_append: "lower (a @ b) = lower a @ lower b"
  by (simp add: lower_def)

lemma lower_json: "lower ''.json'' = ''.json''"
  by (simp add: lower_def lower_char_def upper_chars_def lower_chars_def)

lemma endswith_append: "endswith (a @ b) b"
  by (simp add: endswith_def)

lemma spec_filename_json: "endswith (lower (spec_filename os w filename)) ''.json''"
proof -
  have "endswith (lower (x @ ''.json'')) ''.json''" for x
    unfolding lower_append lower_json by (rule endswith_append)
  from this [of "''assfont_config_'' @ strftime_Ymd_HMS (datetime_now os w)"] this [of filename]
  show ?thesis by (simp add: spec_filename_def)
qed

lemma length_zero_pad: "length s \<le> k \<Longrightarrow> length (zero_pad k s) = k"
  by (simp add: zero_pad_def)

lemma is_digit_zero: "is_digit (CHR ''0'')"
  by (simp add: is_digit_def)

lemma zero_pad_digits: "list_all is_digit s \<Longrightarrow> list_all is_digit (zero_pad k s)"
  unfolding zero_pad_def list_all_append
  by (simp add: list_all_iff is_digit_zero)

lemma two_digits:
  assumes "n < 100"
  shows "length (zero_pad 2 (digits_of n)) = 2"
proof -
  have "n < 10 ^ Suc 1" using assms by simp
  then have "length (digits_of n) \<le> Suc 1" by (rule length_digits_of)
  then show ?thesis by (simp add: length_zero_pad)
qed

lemma length_digits_of_ge: "10 ^ k \<le> n \<Longrightarrow> Suc k \<le> length (digits_of n)"
proof (induction k arbitrary: n)
  case 0
  then show ?case using digits_of_nonempty [of n] by (cases "digits_of n") simp_all
next
  case (Suc k)
  then have big: "10 * 10 ^ k \<le> n" by simp
  have "(10::nat) \<le> 10 * 10 ^ k" by simp
  with big have "\<not> n < 10" by linarith
  moreover from big have "10 ^ k \<le> n div 10" by simp
  then have "Suc k \<le> length (digits_of (n div 10))" by (rule Suc.IH)
  ultimately show ?case by (subst digits_of.simps) simp
qed

lemma four_digits:
  assumes "1000 \<le> n" "n < 10000"
  shows "length (digits_of n) = 4"
proof -
  have "n < 10 ^ Suc 3" using assms by simp
  then have "length (digits_of n) \<le> Suc 3" by (rule length_digits_of)
  moreover have "10 ^ 3 \<le> n" using assms by simp
  then have "Suc 3 \<le> length (digits_of n)" by (rule length_digits_of_ge)
  ultimately show ?thesis by simp
qed

lemma field_digits: "list_all is_digit (zero_pad k (digits_of n))"
  by (simp add: zero_pad_digits digits_of_all_digits)

text \<open>
  The shape \<open>YYYYMMDD_HHMMSS\<close>, for a year of four digits: fifteen characters, digits but for
  the underscore.
\<close>

lemma strftime_shape:
  assumes "1000 \<le> dt_year t" "dt_year t < 10000" "dt_month t < 100" "dt_day t < 100"
    and "dt_hour t < 100" "dt_minute t < 100" "dt_second t < 100"
  shows "length (strftime_Ymd_HMS t) = 15 \<and> strftime_Ymd_HMS t ! 8 = CHR ''_''
         \<and> list_all is_digit (take 8 (strftime_Ymd_HMS t))
         \<and> list_all is_digit (drop 9 (strftime_Ymd_HMS t))"
proof -
  let ?Y = "digits_of (dt_year t)" and ?m = "zero_pad 2 (digits_of (dt_month t))"
  let ?d = "zero_pad 2 (digits_of (dt_day t))" and ?H = "zero_pad 2 (digits_of (dt_hour t))"
  let ?M = "zero_pad 2 (digits_of (dt_minute t))" and ?S = "zero_pad 2 (digits_of (dt_second t))"
  have len: "length (?Y @ ?m @ ?d) = 8" "length (?H @ ?M @ ?S) = 6"
    using assms by (simp_all add: two_digits four_digits)
  have dig: "list_all is_digit (?Y @ ?m @ ?d)" "list_all is_digit (?H @ ?M @ ?S)"
    by (simp_all add: field_digits digits_of_all_digits)
  have eq: "strftime_Ymd_HMS t = (?Y @ ?m @ ?d) @ CHR ''_'' # (?H @ ?M @ ?S)"
    by (simp add: strftime_Ymd_HMS_def)
  show ?thesis
    unfolding eq using len dig by (simp add: nth_append del: append_assoc)
qed

lemma save_config_invalid_dir:
  "fst (validate_dir_path os w save_dir) = False \<Longrightarrow>
   save_config os w save_dir filename config = ((False, snd (validate_dir_path os w save_dir)), [], w)"
  by (cases "validate_dir_path os w save_dir") (simp add: save_config_def)

lemma save_config_valid_dir:
  assumes "validate_dir_path os w save_dir = (True, d)"
  shows "save_config os w save_dir filename config =
     (case makedirs os w d of
        (Some e, w1) \<Rightarrow> ((False, msg_save_failed @ exn_str e),
                         [Makedirs d, Log (msg_save_failed @ exn_str e)], w1)
      | (None, w1) \<Rightarrow>
          (case json_dump os w1 (os_path_join d (spec_filename os w filename)) (PDict config) 2 False of
             (Some e, w2) \<Rightarrow>
               ((False, msg_save_failed @ exn_str e),
                [Makedirs d, JsonDump (os_path_join d (spec_filename os w filename)) (PDict config) 2 False,
                 Log (msg_save_failed @ exn_str e)], w2)
           | (None, w2) \<Rightarrow>
               ((True, msg_saved_to @ os_path_join d (spec_filename os w filename)),
                [Makedirs d, JsonDump (os_path_join d (spec_filename os w filename)) (PDict config) 2 False],
                w2)))"
proof -
  have f: "(if strip filename = [] then generate_default_filename os w
            else if \<not> endswith (lower filename) ''.json'' then filename @ ''.json'' else filename)
           = spec_filename os w filename"
    by (simp add: spec_filename_def generate_default_filename_def)
  show ?thesis
    unfolding save_config_def assms by (simp add: Let_def f)
qed

lemma save_config_not_a_dir:
  "clean_path save_dir \<noteq> [] \<Longrightarrow> path_is_dir os w (clean_path save_dir) = Inr False \<Longrightarrow>
   save_config os w save_dir filename config = ((False, msg_not_a_dir), [], w)"
  by (simp add: save_config_def validate_dir_path_def validate_cleaned_def)

lemma save_config_makedirs_existing:
  assumes "Makedirs d' \<in> set (fst (snd (save_config os w save_dir filename config)))"
  shows "path_is_dir os w (clean_path save_dir) = Inr True"
proof (cases "validate_dir_path os w save_dir")
  case (Pair ok d)
  show ?thesis
  proof (cases ok)
    case True
    with Pair show ?thesis using validate_dir_path_True [of os w save_dir d] by simp
  next
    case False
    with Pair assms show ?thesis by (simp add: save_config_def)
  qed
qed

text \<open>
  C6, as stated: \<open>save\<close> creates the target directory if absent. In the sample world \<open>/nope\<close>
  does not exist; saving there returns the validation error, no event happens, and the
  world, in which \<open>/nope\<close> is still no directory, is unchanged.
\<close>

theorem save_config_absent_dir_counterexample:
  "\<not> path_exists sample_os sample_w ''/nope''
   \<and> save_config sample_os sample_w ''/nope'' ''c'' DEFAULT_CONFIG = ((False, msg_not_a_dir), [], sample_w)
   \<and> path_is_dir sample_os sample_w ''/nope'' = Inr False"
  by (simp add: save_config_def sample_os_def sample_w_def clean_path_def strip_def isspace_def
      re_sub_quotes_def drop_trailing_quote_def is_quote_def dquote_def squote_def newline_def
      validate_dir_path_def validate_cleaned_def)

text \<open>
  C6, amended: \<open>save_config\<close> validates the target directory and, when that fails, returns the
  validation error with no effect at all; in particular a target that is absent, or is not a
  directory, is not created. Otherwise the file name is the one of the specification
  (synthesized as \<open>assfont_config_\<close>, the time as \<open>YYYYMMDD_HHMMSS\<close> for a year of four digits,
  and \<open>.json\<close> when the name given is blank, else the name given with \<open>.json\<close> appended when
  missing, so that it always ends in \<open>.json\<close> up to case); \<open>os.makedirs\<close> is called, on a
  directory that exists already; the document is dumped to the joined path with \<open>indent=2\<close>
  and \<open>ensure_ascii=False\<close>, and the result is the success message ending in that path; an
  exception of either call gives \<open>False\<close> with the wrapped message, which is also logged.
\<close>

theorem save_config_steps:
  "(fst (validate_dir_path os w save_dir) = False \<longrightarrow>
      save_config os w save_dir filename config
      = ((False, snd (validate_dir_path os w save_dir)), [], w))
   \<and> (clean_path save_dir \<noteq> [] \<and> path_is_dir os w (clean_path save_dir) = Inr False \<longrightarrow>
      save_config os w save_dir filename config = ((False, msg_not_a_dir), [], w))
   \<and> (Makedirs d' \<in> set (fst (snd (save_config os w save_dir filename config))) \<longrightarrow>
      path_is_dir os w (clean_path save_dir) = Inr True)
   \<and> (validate_dir_path os w save_dir = (True, d) \<and> makedirs os w d = (None, w1)
      \<and> json_dump os w1 (os_path_join d (spec_filename os w filename)) (PDict config) 2 False = (None, w2) \<longrightarrow>
      save_config os w save_dir filename config
      = ((True, msg_saved_to @ os_path_join d (spec_filename os w filename)),
         [Makedirs d, JsonDump (os_path_join d (spec_filename os w filename)) (PDict config) 2 False],
         w2))
   \<and> (validate_dir_path os w save_dir = (True, d) \<and> makedirs os w d = (Some e, w1) \<longrightarrow>
      save_config os w save_dir filename config
      = ((False, msg_save_failed @ exn_str e), [Makedirs d, Log (msg_save_failed @ exn_str e)], w1))
   \<and> (validate_dir_path os w save_dir = (True, d) \<and> makedirs os w d = (None, w1)
      \<and> json_dump os w1 (os_path_join d (spec_filename os w filename)) (PDict config) 2 False = (Some e, w2) \<longrightarrow>
      save_config os w save_dir filename config
      = ((False, msg_save_failed @ exn_str e),
         [Makedirs d, JsonDump (os_path_join d (spec_filename os w filename)) (PDict config) 2 False,
          Log (msg_save_failed @ exn_str e)], w2))
   \<and> endswith (lower (spec_filename os w filename)) ''.json''
   \<and> (1000 \<le> dt_year t \<and> dt_year t < 10000 \<and> dt_month t < 100 \<and> dt_day t < 100 \<and> dt_hour t < 100
      \<and> dt_minute t < 100 \<and> dt_second t < 100 \<longrightarrow>
      length (strftime_Ymd_HMS t) = 15 \<and> strftime_Ymd_HMS t ! 8 = CHR ''_''
      \<and> list_all is_digit (take 8 (strftime_Ymd_HMS t))
      \<and> list_all is_digit (drop 9 (strftime_Ymd_HMS t)))"
proof -
  have a: "fst (validate_dir_path os w save_dir) = False \<longrightarrow>
      save_config os w save_dir filename config
      = ((False, snd (validate_dir_path os w save_dir)), [], w)"
    by (simp add: save_config_invalid_dir)
  have a': "clean_path save_dir \<noteq> [] \<and> path_is_dir os w (clean_path save_dir) = Inr False \<longrightarrow>
      save_config os w save_dir filename config = ((False, msg_not_a_dir), [], w)"
    by (simp add: save_config_not_a_dir)
  have g: "Makedirs d' \<in> set (fst (snd (save_config os w save_dir filename config))) \<longrightarrow>
      path_is_dir os w (clean_path save_dir) = Inr True"
    by (rule impI) (rule save_config_makedirs_existing)
  have b: "validate_dir_path os w save_dir = (True, d) \<and> makedirs os w d = (None, w1)
      \<and> json_dump os w1 (os_path_join d (spec_filename os w filename)) (PDict config) 2 False = (None, w2) \<longrightarrow>
      save_config os w save_dir filename config
      = ((True, msg_saved_to @ os_path_join d (spec_filename os w filename)),
         [Makedirs d, JsonDump (os_path_join d (spec_filename os w filename)) (PDict config) 2 False],
         w2)"
    by (simp add: save_config_valid_dir)
  have c: "validate_dir_path os w save_dir = (True, d) \<and> makedirs os w d = (Some e, w1) \<longrightarrow>
      save_config os w save_dir filename config
      = ((False, msg_save_failed @ exn_str e), [Makedirs d, Log (msg_save_failed @ exn_str e)], w1)"
    by (simp add: save_config_valid_dir)
  have d: "validate_dir_path os w save_dir = (True, d) \<and> makedirs os w d = (None, w1)
      \<and> json_dump os w1 (os_path_join d (spec_filename os w filename)) (PDict config) 2 False = (Some e, w2) \<longrightarrow>
      save_config os w save_dir filename config
      = ((False, msg_save_failed @ exn_str e),
         [Makedirs d, JsonDump (os_path_join d (spec_filename os w filename)) (PDict config) 2 False,
          Log (msg_save_failed @ exn_str e)], w2)"
    by (simp add: save_config_valid_dir)
  from a a' g b c d spec_filename_json [of os w filename] strftime_shape [of t]
  show ?thesis by blast
qed

lemmas sample_eval3 =
  sample_os_def sample_w_def sample_clock_def readonly_os_def full_disk_os_def
  clean_path_def strip_def isspace_def re_sub_quotes_def drop_trailing_quote_def
  is_quote_def dquote_def squote_def newline_def
  lower_def lower_char_def upper_chars_def lower_chars_def endswith_def
  validate_dir_path_def validate_cleaned_def os_path_join_def

lemma strftime_sample: "strftime_Ymd_HMS sample_clock = ''20250309_140507''"
  by (simp add: strftime_Ymd_HMS_def sample_clock_def zero_pad_def digits_of.simps digit_char_def)

theorem save_config_steps_witness:
  "save_config sample_os sample_w ''/nope'' ''c'' DEFAULT_CONFIG = ((False, msg_not_a_dir), [], sample_w)
   \<and> fst (save_config sample_os sample_w ''/cfg'' [] DEFAULT_CONFIG)
       = (True, msg_saved_to @ ''/cfg/assfont_config_20250309_140507.json'')
   \<and> fst (snd (save_config sample_os sample_w ''/cfg'' [] DEFAULT_CONFIG))
       = [Makedirs ''/cfg'',
          JsonDump ''/cfg/assfont_config_20250309_140507.json'' (PDict DEFAULT_CONFIG) 2 False]
   \<and> save_config readonly_os sample_w ''/cfg'' ''c'' DEFAULT_CONFIG
       = ((False, msg_save_failed @ ''[Errno 30] Read-only file system''),
          [Makedirs ''/cfg'', Log (msg_save_failed @ ''[Errno 30] Read-only file system'')], sample_w)
   \<and> save_config full_disk_os sample_w ''/cfg'' ''c.JSON'' DEFAULT_CONFIG
       = ((False, msg_save_failed @ ''[Errno 28] No space left on device''),
          [Makedirs ''/cfg'', JsonDump ''/cfg/c.JSON'' (PDict DEFAULT_CONFIG) 2 False,
           Log (msg_save_failed @ ''[Errno 28] No space left on device'')], sample_w)
   \<and> endswith (lower (spec_filename sample_os sample_w ''c'')) ''.json''
   \<and> length (strftime_Ymd_HMS sample_clock) = 15"
proof -
  let ?name = "''assfont_config_20250309_140507.json''"
  let ?w2 = "sample_w\<lparr>sw_files := (''/cfg/'' @ ?name, Json (PDict DEFAULT_CONFIG)) # sw_files sample_w\<rparr>"
  have v0: "fst (validate_dir_path sample_os sample_w ''/nope'') = False"
    and m0: "snd (validate_dir_path sample_os sample_w ''/nope'') = msg_not_a_dir"
    by (simp_all add: sample_eval3)
  have v1: "validate_dir_path sample_os sample_w ''/cfg'' = (True, ''/cfg'')"
    and v2: "validate_dir_path readonly_os sample_w ''/cfg'' = (True, ''/cfg'')"
    and v3: "validate_dir_path full_disk_os sample_w ''/cfg'' = (True, ''/cfg'')"
    by (simp_all add: sample_eval3)
  have n1: "spec_filename sample_os sample_w [] = ?name"
    by (simp add: spec_filename_def strip_def sample_os_def sample_w_def strftime_sample)
  have n3: "spec_filename full_disk_os sample_w ''c.JSON'' = ''c.JSON''"
    by (simp add: spec_filename_def sample_eval3)
  have mk1: "makedirs sample_os sample_w ''/cfg'' = (None, sample_w)"
    and mk2: "makedirs readonly_os sample_w ''/cfg''
              = (Some (Exn OSError ''[Errno 30] Read-only file system''), sample_w)"
    and mk3: "makedirs full_disk_os sample_w ''/cfg'' = (None, sample_w)"
    by (simp_all add: sample_os_def sample_w_def readonly_os_def full_disk_os_def)
  have p1: "os_path_join ''/cfg'' ?name = ''/cfg/'' @ ?name"
    and p3: "os_path_join ''/cfg'' ''c.JSON'' = ''/cfg/c.JSON''"
    by (simp_all add: os_path_join_def)
  have d1: "json_dump sample_os sample_w (os_path_join ''/cfg'' (spec_filename sample_os sample_w []))
              (PDict DEFAULT_CONFIG) 2 False = (None, ?w2)"
    unfolding n1 p1 by (simp add: sample_os_def)
  have d3: "json_dump full_disk_os sample_w (os_path_join ''/cfg'' (spec_filename full_disk_os sample_w ''c.JSON''))
              (PDict DEFAULT_CONFIG) 2 False
            = (Some (Exn OSError ''[Errno 28] No space left on device''), sample_w)"
    by (simp add: full_disk_os_def sample_os_def)
  have t: "1000 \<le> dt_year sample_clock \<and> dt_year sample_clock < 10000 \<and> dt_month sample_clock < 100 \<and> dt_day sample_clock < 100
      \<and> dt_hour sample_clock < 100 \<and> dt_minute sample_clock < 100 \<and> dt_second sample_clock < 100"
    by (simp add: sample_clock_def)
  from save_config_steps [where os = sample_os and w = sample_w and save_dir = "''/nope''"
      and filename = "''c''" and config = DEFAULT_CONFIG] v0 m0
  have a: "save_config sample_os sample_w ''/nope'' ''c'' DEFAULT_CONFIG = ((False, msg_not_a_dir), [], sample_w)"
    by simp
  from save_config_steps [where os = sample_os and w = sample_w and save_dir = "''/cfg''"
      and filename = "[]" and config = DEFAULT_CONFIG and d = "''/cfg''" and ?w1.0 = sample_w
      and ?w2.0 = ?w2]
    v1 mk1 d1
  have b: "save_config sample_os sample_w ''/cfg'' [] DEFAULT_CONFIG
     = ((True, msg_saved_to @ os_path_join ''/cfg'' (spec_filename sample_os sample_w [])),
        [Makedirs ''/cfg'',
         JsonDump (os_path_join ''/cfg'' (spec_filename sample_os sample_w [])) (PDict DEFAULT_CONFIG) 2 False],
        ?w2)"
    by blast
  from save_config_steps [where os = readonly_os and w = sample_w and save_dir = "''/cfg''"
      and filename = "''c''" and config = DEFAULT_CONFIG and d = "''/cfg''" and ?w1.0 = sample_w
      and e = "Exn OSError ''[Errno 30] Read-only file system''"] v2 mk2
  have c: "save_config readonly_os sample_w ''/cfg'' ''c'' DEFAULT_CONFIG
       = ((False, msg_save_failed @ ''[Errno 30] Read-only file system''),
          [Makedirs ''/cfg'', Log (msg_save_failed @ ''[Errno 30] Read-only file system'')], sample_w)"
    by simp
  from save_config_steps [where os = full_disk_os and w = sample_w and save_dir = "''/cfg''"
      and filename = "''c.JSON''" and config = DEFAULT_CONFIG and d = "''/cfg''" and ?w1.0 = sample_w
      and ?w2.0 = sample_w and e = "Exn OSError ''[Errno 28] No space left on device''"] v3 mk3 d3
  have d: "save_config full_disk_os sample_w ''/cfg'' ''c.JSON'' DEFAULT_CONFIG
       = ((False, msg_save_failed @ ''[Errno 28] No space left on device''),
          [Makedirs ''/cfg'',
           JsonDump (os_path_join ''/cfg'' (spec_filename full_disk_os sample_w ''c.JSON''))
             (PDict DEFAULT_CONFIG) 2 False,
           Log (msg_save_failed @ ''[Errno 28] No space left on device'')], sample_w)"
    by simp
  from save_config_steps [where os = sample_os and w = sample_w and filename = "''c''"
      and t = sample_clock] t
  have e: "endswith (lower (spec_filename sample_os sample_w ''c'')) ''.json''"
    and f: "length (strftime_Ymd_HMS sample_clock) = 15"
    by blast+
  show ?thesis
    unfolding a b c d n1 n3 p1 p3 using e f by simp
qed

section \<open>Properties of safe_launch\<close>

lemma get_port_from_file_range:
  "fst (get_port_from_file os w) = Some p \<Longrightarrow> 1024 \<le> p \<and> p \<le> 65535"
  by (auto simp: get_port_from_file_def split: if_splits sum.splits prod.splits
      dest: validate_port_range)

lemma preferred_port_range:
  "1024 \<le> (case fst (get_port_from_file os w) of Some p \<Rightarrow> p | None \<Rightarrow> DEFAULT_PORT)
   \<and> (case fst (get_port_from_file os w) of Some p \<Rightarrow> p | None \<Rightarrow> DEFAULT_PORT) \<le> 65535"
  using get_port_from_file_range [of os w]
  by (cases "fst (get_port_from_file os w)") (auto simp: DEFAULT_PORT_def)

lemma bind_probe_free_range: "bind_probe os w port = None \<Longrightarrow> 0 \<le> port \<and> port \<le> 65535"
  by (auto simp: bind_probe_def split: if_splits)

lemma save_port_to_file_ok:
  assumes "1024 \<le> port" "port \<le> 65535"
    and "write_text os w (PORT_FILE_PATH os) (py_str port) = (None, w')"
  shows "save_port_to_file os w port = (True, [WriteText (PORT_FILE_PATH os) (py_str port)], w')"
  using assms by (simp add: save_port_to_file_def validate_port_of_py_str str_of_port_def)

lemma try_port_busy:
  "bind_probe os w port = Some e \<Longrightarrow> try_port os w port = (Raised e, [Bind port], w)"
  by (simp add: try_port_def)

lemma try_port_blocks:
  "bind_probe os w port = None \<Longrightarrow> demo_launch os w port = (LaunchBlocks, w1) \<Longrightarrow>
   try_port os w port = (NotReturned, [Bind port, SignalDefault, Launch port], w1)"
  by (simp add: try_port_def)

lemma try_port_returns:
  assumes "bind_probe os w port = None" "1024 \<le> port"
    and "demo_launch os w port = (LaunchReturns, w1)"
    and "write_text os w1 (PORT_FILE_PATH os) (py_str port) = (None, w2)"
  shows "try_port os w port
         = (Returned port,
            [Bind port, SignalDefault, Launch port, WriteText (PORT_FILE_PATH os) (py_str port),
             OpenBrowser (''http://127.0.0.1:'' @ py_str port)], w2)"
proof -
  from assms(1) have "port \<le> 65535" by (simp add: bind_probe_free_range)
  with assms have "save_port_to_file os w1 port
      = (True, [WriteText (PORT_FILE_PATH os) (py_str port)], w2)"
    by (intro save_port_to_file_ok) simp_all
  with assms show ?thesis by (simp add: try_port_def)
qed

lemma attempts_unfold: "2 \<le> m \<Longrightarrow> [0 ..< nat m] = 0 # 1 # [2 ..< nat m]"
proof -
  assume "2 \<le> m"
  then have "0 < nat m" "Suc 0 < nat m" by simp_all
  then show ?thesis by (simp add: upt_conv_Cons numeral_2_eq_2)
qed

text \<open>
  The second attempt, whatever way its \<open>try\<close> body ends other than by an exception: the loop
  ends the same way, after the probe of the first port.
\<close>

lemma safe_launch_loop_second:
  assumes "bind_probe os w p = Some e" "exn_cls e = OSError" "2 \<le> m"
    and "try_port os w (p + 1) = (r, evs, w1)" "\<forall>e'. r \<noteq> Raised e'"
  shows "safe_launch_loop os w p m [0 ..< nat m]
         = (case r of Returned port \<Rightarrow> Returned (Some port) | _ \<Rightarrow> NotReturned, Bind p # evs, w1)"
proof -
  have t0: "try_port os w p = (Raised e, [Bind p], w)"
    using assms(1) by (simp add: try_port_busy)
  have ne: "0 \<noteq> m - 1" using assms(3) by simp
  have step1: "safe_launch_loop os w p m (Suc 0 # [2 ..< nat m])
               = (case r of Returned port \<Rightarrow> Returned (Some port) | _ \<Rightarrow> NotReturned, evs, w1)"
    using assms(5)
    by (subst safe_launch_loop.simps) (cases r; simp add: assms(4))
  have step0: "safe_launch_loop os w p m (0 # 1 # [2 ..< nat m])
               = (case r of Returned port \<Rightarrow> Returned (Some port) | _ \<Rightarrow> NotReturned, Bind p # evs, w1)"
    by (subst safe_launch_loop.simps)
       (simp add: t0 step1 assms(2) ne del: safe_launch_loop.simps)
  show ?thesis
    unfolding attempts_unfold [OF assms(3)] step0 by simp
qed

text \<open>
  With the preferred port taken and the next one free, \<open>safe_launch\<close> does not return when
  \<open>launch\<close> blocks: the port is not written and the browser is not opened.
\<close>

lemma safe_launch_blocks:
  assumes "preferred = (case fst (get_port_from_file os w) of Some p \<Rightarrow> p | None \<Rightarrow> DEFAULT_PORT)"
    and "bind_probe os w preferred = Some e" and "exn_cls e = OSError"
    and "bind_probe os w (preferred + 1) = None"
    and "demo_launch os w (preferred + 1) = (LaunchBlocks, w1)"
    and "2 \<le> max_attempts"
  shows "safe_launch os w max_attempts
         = (NotReturned,
            snd (get_port_from_file os w)
            @ [Bind preferred, Bind (preferred + 1), SignalDefault, Launch (preferred + 1)],
            w1)"
proof -
  have t: "try_port os w (preferred + 1)
           = (NotReturned, [Bind (preferred + 1), SignalDefault, Launch (preferred + 1)], w1)"
    by (rule try_port_blocks [OF assms(4,5)])
  have l: "safe_launch_loop os w preferred max_attempts [0 ..< nat max_attempts]
         = (NotReturned, [Bind preferred, Bind (preferred + 1), SignalDefault, Launch (preferred + 1)], w1)"
    using safe_launch_loop_second [OF assms(2,3,6) t] by simp
  show ?thesis
    unfolding safe_launch_def
    by (cases "get_port_from_file os w") (use assms(1) l in simp)
qed

text \<open>
  Were \<open>launch\<close> to return, the rest of the \<open>try\<close> body would do what the specification says:
  write the port to the port file, open the browser, return the port.
\<close>

lemma safe_launch_if_launch_returns:
  assumes "preferred = (case fst (get_port_from_file os w) of Some p \<Rightarrow> p | None \<Rightarrow> DEFAULT_PORT)"
    and "bind_probe os w preferred = Some e" and "exn_cls e = OSError"
    and "bind_probe os w (preferred + 1) = None"
    and "demo_launch os w (preferred + 1) = (LaunchReturns, w1)"
    and "write_text os w1 (PORT_FILE_PATH os) (py_str (preferred + 1)) = (None, w2)"
    and "2 \<le> max_attempts"
  shows "safe_launch os w max_attempts
         = (Returned (Some (preferred + 1)),
            snd (get_port_from_file os w)
            @ [Bind preferred, Bind (preferred + 1), SignalDefault, Launch (preferred + 1),
               WriteText (PORT_FILE_PATH os) (py_str (preferred + 1)),
               OpenBrowser (''http://127.0.0.1:'' @ py_str (preferred + 1))],
            w2)"
proof -
  have r: "1024 \<le> preferred + 1"
    using preferred_port_range [of os w] assms(1) by simp
  have t: "try_port os w (preferred + 1)
           = (Returned (preferred + 1),
              [Bind (preferred + 1), SignalDefault, Launch (preferred + 1),
               WriteText (PORT_FILE_PATH os) (py_str (preferred + 1)),
               OpenBrowser (''http://127.0.0.1:'' @ py_str (preferred + 1))], w2)"
    by (rule try_port_returns [OF assms(4) r assms(5,6)])
  have l: "safe_launch_loop os w preferred max_attempts [0 ..< nat max_attempts]
         = (Returned (Some (preferred + 1)),
            [Bind preferred, Bind (preferred + 1), SignalDefault, Launch (preferred + 1),
             WriteText (PORT_FILE_PATH os) (py_str (preferred + 1)),
             OpenBrowser (''http://127.0.0.1:'' @ py_str (preferred + 1))], w2)"
    using safe_launch_loop_second [OF assms(2,3,7) t] by simp
  show ?thesis
    unfolding safe_launch_def
    by (cases "get_port_from_file os w") (use assms(1) l in simp)
qed

text \<open>
  C9 in the sample world, where port 7888 is taken, port 7889 is free and \<open>launch\<close> blocks as
  it does in a script: \<open>safe_launch\<close> probes 7888, then 7889, restores the default interrupt
  handling and starts the server on 7889; control does not come back, so nothing is written
  to the port file, which does not exist afterwards, the browser is not opened and no port
  is returned.
\<close>

theorem safe_launch_stops_in_launch:
  "safe_launch sample_os sample_w 20
   = (NotReturned, [Bind 7888, Bind 7889, SignalDefault, Launch 7889],
      sample_w\<lparr>sw_bound := 7889 # sw_bound sample_w\<rparr>)
   \<and> \<not> path_exists sample_os (sample_w\<lparr>sw_bound := 7889 # sw_bound sample_w\<rparr>)
         (PORT_FILE_PATH sample_os)"
proof -
  let ?w1 = "sample_w\<lparr>sw_bound := 7889 # sw_bound sample_w\<rparr>"
  have g: "get_port_from_file sample_os sample_w = (None, [])"
    by (simp add: get_port_from_file_def PORT_FILE_PATH_def os_path_join_def sample_os_def sample_w_def)
  have p: "(7888::int) = (case fst (get_port_from_file sample_os sample_w) of Some p \<Rightarrow> p | None \<Rightarrow> DEFAULT_PORT)"
    by (simp add: g DEFAULT_PORT_def)
  have b0: "bind_probe sample_os sample_w 7888 = Some (Exn OSError ''[Errno 98] Address already in use'')"
    by (simp add: bind_probe_def sample_os_def sample_w_def)
  have c: "exn_cls (Exn OSError ''[Errno 98] Address already in use'') = OSError" by simp
  have b1: "bind_probe sample_os sample_w (7888 + 1) = None"
    by (simp add: bind_probe_def sample_os_def sample_w_def)
  have d: "demo_launch sample_os sample_w (7888 + 1) = (LaunchBlocks, ?w1)"
    by (simp add: sample_os_def)
  have m: "(2::int) \<le> 20" by simp
  have f: "safe_launch sample_os sample_w 20
        = (NotReturned,
           snd (get_port_from_file sample_os sample_w)
           @ [Bind 7888, Bind (7888 + 1), SignalDefault, Launch (7888 + 1)], ?w1)"
    by (rule safe_launch_blocks [OF p b0 c b1 d m])
  have e: "\<not> path_exists sample_os ?w1 (PORT_FILE_PATH sample_os)"
    by (simp add: PORT_FILE_PATH_def os_path_join_def sample_os_def sample_w_def)
  show ?thesis
    unfolding f g using e by simp
qed

end
